theory Spec2Isabelle
  imports Complex_Main "HOL-Library.Sublist" "HOL-Library.AList"
begin

section \<open>JavaScript values and the runtime the program calls into\<close>

text \<open>
  A JavaScript number is a double: a real that the format represents, or \<open>NaN\<close>. The
  infinities are not part of the model. Arithmetic on doubles rounds, so it is not the
  arithmetic of the reals: the one operation the program computes, a subtraction, is a
  function of the runtime below.
\<close>

datatype number = Num real | NaN

datatype jsvalue =
    JUndefined
  | JNull
  | JBool bool
  | JNum number
  | JStr string
  | JArr "jsvalue list"
  | JObj "(string \<times> jsvalue) list"

text \<open>
  A thrown value is either an \<open>Error\<close> object, kept by its \<open>message\<close>, or any other
  value, kept by what \<open>String(value)\<close> renders.
\<close>

datatype thrown = ErrorObj string | NonError string

text \<open>\<^verbatim>\<open>e instanceof Error ? e.message : String(e)\<close>\<close>

fun error_text :: "thrown \<Rightarrow> string" where
  "error_text (ErrorObj m) = m"
| "error_text (NonError s) = s"

text \<open>
  Functions of the JavaScript runtime that the sources call and do not define. They are
  parameters of the model: \<open>JSON_parse\<close> is \<^verbatim>\<open>JSON.parse\<close> (\<open>None\<close> when it throws a
  SyntaxError), \<open>String_of\<close> is \<^verbatim>\<open>String(value)\<close>, \<open>parseFloat\<close> is the global of that
  name, \<open>StringToNumber\<close> is the numeric value of a string in an arithmetic
  expression, and \<open>double_minus\<close> is \<^verbatim>\<open>a - b\<close> on two doubles: their difference rounded
  to the nearest double. It is the exact difference when \<open>a\<close> and \<open>b\<close> are integers of
  magnitude at most \<open>2^52\<close>, as millisecond timestamps are.
\<close>

record js_runtime =
  JSON_parse :: "string \<Rightarrow> jsvalue option"
  String_of :: "jsvalue \<Rightarrow> string"
  parseFloat :: "string \<Rightarrow> number"
  StringToNumber :: "string \<Rightarrow> number"
  double_minus :: "real \<Rightarrow> real \<Rightarrow> real"

text \<open>
  The operand conversion of \<^verbatim>\<open>now - x\<close>. Arrays and objects are converted through
  their string rendering.
\<close>

fun ToNumber :: "js_runtime \<Rightarrow> jsvalue \<Rightarrow> number" where
  "ToNumber rt JUndefined = NaN"
| "ToNumber rt JNull = Num 0"
| "ToNumber rt (JBool b) = Num (if b then 1 else 0)"
| "ToNumber rt (JNum n) = n"
| "ToNumber rt (JStr s) = StringToNumber rt s"
| "ToNumber rt v = StringToNumber rt (String_of rt v)"

text \<open>
  Reading a data property \<^verbatim>\<open>v.k\<close>: a TypeError on \<open>null\<close> and \<open>undefined\<close>,
  \<open>undefined\<close> where the property is missing. The program reads the keys
  \<^verbatim>\<open>cachedAt\<close> and \<^verbatim>\<open>tools\<close> only, which no prototype defines.
\<close>

fun get_prop :: "jsvalue \<Rightarrow> string \<Rightarrow> thrown + jsvalue" where
  "get_prop JUndefined k = Inl (ErrorObj ''TypeError: cannot read property of undefined'')"
| "get_prop JNull k = Inl (ErrorObj ''TypeError: cannot read property of null'')"
| "get_prop (JObj kvs) k = Inr (case map_of kvs k of None \<Rightarrow> JUndefined | Some v \<Rightarrow> v)"
| "get_prop v k = Inr JUndefined"

text \<open>\<^verbatim>\<open>String.prototype.includes\<close>\<close>

fun str_includes :: "string \<Rightarrow> string \<Rightarrow> bool" where
  "str_includes [] sub = (sub = [])"
| "str_includes (c # cs) sub = (prefix sub (c # cs) \<or> str_includes cs sub)"

section \<open>The file system\<close>

text \<open>
  The files of the cache directory, by path. \<^verbatim>\<open>readFileSync\<close> and \<^verbatim>\<open>unlinkSync\<close> throw
  on a path that does not exist. Permissions and other processes are not modelled.
\<close>

type_synonym filesystem = "string \<rightharpoonup> string"

definition existsSync :: "filesystem \<Rightarrow> string \<Rightarrow> bool" where
  "existsSync fs p = (fs p \<noteq> None)"

definition readFileSync :: "filesystem \<Rightarrow> string \<Rightarrow> thrown + string" where
  "readFileSync fs p =
     (case fs p of
        None \<Rightarrow> Inl (ErrorObj ''ENOENT: no such file or directory'')
      | Some content \<Rightarrow> Inr content)"

definition unlinkSync :: "filesystem \<Rightarrow> string \<Rightarrow> thrown + filesystem" where
  "unlinkSync fs p =
     (case fs p of
        None \<Rightarrow> Inl (ErrorObj ''ENOENT: no such file or directory'')
      | Some content \<Rightarrow> Inr (fs(p := None)))"

text \<open>
  \<^verbatim>\<open>path.join\<close> of a directory and one segment that holds no separator and is neither
  \<^verbatim>\<open>.\<close> nor \<^verbatim>\<open>..\<close>, which is how the program calls it.
\<close>

definition path_join :: "string \<Rightarrow> string \<Rightarrow> string" where
  "path_join dir segment = dir @ ''/'' @ segment"

section \<open>config/loader.ts and config/types.ts\<close>

record CliSettings =
  cacheEnabled :: bool
  cacheTtlMs :: real

definition DEFAULT_SETTINGS :: CliSettings where
  "DEFAULT_SETTINGS = \<lparr>cacheEnabled = True, cacheTtlMs = 4 * 60 * 60 * 1000\<rparr>"

text \<open>The argument is what \<^verbatim>\<open>AppContext.current.getConfigDir()\<close> returns.\<close>

definition getCacheDir :: "string \<Rightarrow> string" where
  "getCacheDir configDir = path_join configDir ''cache''"

section \<open>config/cache.ts\<close>

text \<open>The characters that the class \<^verbatim>\<open>[^a-zA-Z0-9_-]\<close> does not match.\<close>

definition safe_chars :: string where
  "safe_chars = ''abcdefghijklmnopqrstuvwxyzABCDEFGHIJKLMNOPQRSTUVWXYZ0123456789_-''"

text \<open>\<^verbatim>\<open>serverName.replace(/[^a-zA-Z0-9_-]/g, "_")\<close>\<close>

definition safeName :: "string \<Rightarrow> string" where
  "safeName serverName = map (\<lambda>c. if c \<in> set safe_chars then c else CHR ''_'') serverName"

definition getCacheFilePath :: "string \<Rightarrow> string \<Rightarrow> string" where
  "getCacheFilePath configDir serverName =
     path_join (getCacheDir configDir) (safeName serverName @ ''.json'')"

text \<open>
  \<^verbatim>\<open>now - cachedAt < ttlMs\<close>, with \<open>now\<close> what \<^verbatim>\<open>Date.now()\<close> returns. The caller casts
  the parsed file to \<^verbatim>\<open>CachedToolData\<close> without a check, so \<open>cachedAt\<close> is any value; a
  comparison with \<open>NaN\<close> is false. The subtraction is the runtime's, on doubles; the
  comparison of two doubles is exact.
\<close>

definition isCacheValid :: "js_runtime \<Rightarrow> real \<Rightarrow> jsvalue \<Rightarrow> real \<Rightarrow> bool" where
  "isCacheValid rt now cachedAt ttlMs =
     (case ToNumber rt cachedAt of
        NaN \<Rightarrow> False
      | Num c \<Rightarrow> double_minus rt now c < ttlMs)"

text \<open>The \<^verbatim>\<open>try\<close> block of \<^verbatim>\<open>getCachedTools\<close>: \<open>Inl\<close> is what it throws.\<close>

definition getCachedTools_try ::
  "js_runtime \<Rightarrow> CliSettings \<Rightarrow> real \<Rightarrow> filesystem \<Rightarrow> string \<Rightarrow> (thrown + jsvalue) \<times> filesystem"
where
  "getCachedTools_try rt settings now fs cachePath =
     (case readFileSync fs cachePath of
        Inl e \<Rightarrow> (Inl e, fs)
      | Inr content \<Rightarrow>
          (case JSON_parse rt content of
             None \<Rightarrow> (Inl (ErrorObj ''SyntaxError''), fs)
           | Some data \<Rightarrow>
               (case get_prop data ''cachedAt'' of
                  Inl e \<Rightarrow> (Inl e, fs)
                | Inr cachedAt \<Rightarrow>
                    if \<not> isCacheValid rt now cachedAt (cacheTtlMs settings) then
                      (case unlinkSync fs cachePath of
                         Inl e \<Rightarrow> (Inl e, fs)
                       | Inr fs' \<Rightarrow> (Inr JUndefined, fs'))
                    else
                      (case get_prop data ''tools'' of
                         Inl e \<Rightarrow> (Inl e, fs)
                       | Inr tools \<Rightarrow> (Inr tools, fs)))))"

text \<open>
  \<open>loaded\<close> is the outcome of \<^verbatim>\<open>getSettings()\<close>, which reads the configuration file and
  throws when it cannot be parsed; that call stands outside the \<^verbatim>\<open>try\<close>. The result
  \<open>JUndefined\<close> is the absent tool list.
\<close>

definition getCachedTools ::
  "js_runtime \<Rightarrow> thrown + CliSettings \<Rightarrow> string \<Rightarrow> real \<Rightarrow> filesystem \<Rightarrow> string
     \<Rightarrow> (thrown + jsvalue) \<times> filesystem"
where
  "getCachedTools rt loaded configDir now fs serverName =
     (case loaded of
        Inl e \<Rightarrow> (Inl e, fs)
      | Inr settings \<Rightarrow>
          if \<not> cacheEnabled settings then (Inr JUndefined, fs)
          else
            let cachePath = getCacheFilePath configDir serverName in
            if \<not> existsSync fs cachePath then (Inr JUndefined, fs)
            else
              (case getCachedTools_try rt settings now fs cachePath of
                 (Inr v, fs') \<Rightarrow> (Inr v, fs')
               | (Inl e, fs') \<Rightarrow>
                   (case unlinkSync fs' cachePath of
                      Inl e' \<Rightarrow> (Inr JUndefined, fs')
                    | Inr fs'' \<Rightarrow> (Inr JUndefined, fs''))))"

section \<open>utils/schema-to-options.ts\<close>

text \<open>\<^verbatim>\<open>type?: string | string[]\<close>\<close>

datatype schema_type = TypeName string | TypeNames "string list"

text \<open>
  The interface \<^verbatim>\<open>JsonSchemaProperty\<close>. An optional field that is not there is \<open>None\<close>;
  \<open>prop_default\<close> has type \<^verbatim>\<open>unknown\<close> and is \<open>JUndefined\<close> when the schema gives no
  default. The field \<^verbatim>\<open>items\<close> is never read.
\<close>

record JsonSchemaProperty =
  prop_type :: "schema_type option"
  prop_description :: "string option"
  prop_default :: jsvalue
  prop_enum :: "string list option"
  prop_minimum :: "real option"
  prop_maximum :: "real option"

datatype option_type = TString | TNumber | TBoolean | TArray

record OptionDef =
  opt_type :: option_type
  opt_description :: string
  opt_required :: bool
  opt_order :: nat
  opt_default :: jsvalue
  opt_enum :: "string list option"
  opt_min :: "real option"
  opt_max :: "real option"
  opt_label :: "string option"

type_synonym OptionSchema = "string \<rightharpoonup> OptionDef"

text \<open>An object is the list of its entries in the order of \<^verbatim>\<open>Object.entries\<close>.\<close>

record InputSchema =
  schema_properties :: "(string \<times> JsonSchemaProperty) list option"
  schema_required :: "string list option"

record Tool =
  tool_name :: string
  tool_title :: "string option"
  tool_description :: "string option"
  inputSchema :: "InputSchema option"

definition lower_chars :: string where
  "lower_chars = ''abcdefghijklmnopqrstuvwxyz''"

definition upper_chars :: string where
  "upper_chars = ''ABCDEFGHIJKLMNOPQRSTUVWXYZ''"

text \<open>The class \<^verbatim>\<open>\w\<close>.\<close>

definition word_chars :: string where
  "word_chars = lower_chars @ upper_chars @ ''0123456789_''"

text \<open>\<^verbatim>\<open>c.toUpperCase()\<close> of a character that \<^verbatim>\<open>\w\<close> matches.\<close>

definition toUpperCase :: "char \<Rightarrow> char" where
  "toUpperCase c = (case map_of (zip lower_chars upper_chars) c of None \<Rightarrow> c | Some u \<Rightarrow> u)"

text \<open>\<^verbatim>\<open>result.replace(/([a-z])([A-Z])/g, "$1 $2")\<close>\<close>

fun camel_split :: "string \<Rightarrow> string" where
  "camel_split (a # b # cs) =
     (if a \<in> set lower_chars \<and> b \<in> set upper_chars
      then a # CHR '' '' # b # camel_split cs
      else a # camel_split (b # cs))"
| "camel_split cs = cs"

text \<open>
  \<^verbatim>\<open>result.replace(/\b\w/g, (c) => c.toUpperCase())\<close>: a word character is replaced when
  the character before it is not a word character. The flag says whether the previous
  character was one.
\<close>

fun capitalize_words :: "bool \<Rightarrow> string \<Rightarrow> string" where
  "capitalize_words prev [] = []"
| "capitalize_words prev (c # cs) =
     (if \<not> prev \<and> c \<in> set word_chars then toUpperCase c else c)
       # capitalize_words (c \<in> set word_chars) cs"

definition keyToLabel :: "string \<Rightarrow> string" where
  "keyToLabel key =
     capitalize_words False
       (camel_split (map (\<lambda>c. if c = CHR ''_'' then CHR '' '' else c) key))"

definition jsonSchemaPropertyToOptionDef ::
  "string \<Rightarrow> JsonSchemaProperty \<Rightarrow> bool \<Rightarrow> nat \<Rightarrow> OptionDef option"
where
  "jsonSchemaPropertyToOptionDef key prop isRequired order =
     (let jsonType =
            (case prop_type prop of
               None \<Rightarrow> None
             | Some (TypeName t) \<Rightarrow> Some t
             | Some (TypeNames ts) \<Rightarrow> (case ts of [] \<Rightarrow> None | t # rest \<Rightarrow> Some t));
          type =
            (if jsonType = Some ''string'' then TString
             else if jsonType = Some ''number'' \<or> jsonType = Some ''integer'' then TNumber
             else if jsonType = Some ''boolean'' then TBoolean
             else if jsonType = Some ''array'' then TArray
             else TString);
          optionDef0 =
            \<lparr>opt_type = type,
             opt_description =
               (case prop_description prop of
                  None \<Rightarrow> ''The '' @ key @ '' parameter''
                | Some d \<Rightarrow> if d = [] then ''The '' @ key @ '' parameter'' else d),
             opt_required = isRequired,
             opt_order = order,
             opt_default = JUndefined,
             opt_enum = None,
             opt_min = None,
             opt_max = None,
             opt_label = None\<rparr>;
          optionDef1 =
            (if prop_default prop \<noteq> JUndefined
             then optionDef0\<lparr>opt_default := prop_default prop, opt_required := False\<rparr>
             else optionDef0);
          optionDef2 =
            (case prop_enum prop of
               None \<Rightarrow> optionDef1
             | Some vs \<Rightarrow> if length vs > 0 then optionDef1\<lparr>opt_enum := Some vs\<rparr> else optionDef1);
          optionDef3 =
            (if type = TNumber then
               (let withMin =
                      (case prop_minimum prop of
                         None \<Rightarrow> optionDef2
                       | Some lo \<Rightarrow> optionDef2\<lparr>opt_min := Some lo\<rparr>)
                in (case prop_maximum prop of
                      None \<Rightarrow> withMin
                    | Some hi \<Rightarrow> withMin\<lparr>opt_max := Some hi\<rparr>))
             else optionDef2)
      in Some (optionDef3\<lparr>opt_label := Some (keyToLabel key)\<rparr>))"

text \<open>The \<^verbatim>\<open>for\<close> loop of \<^verbatim>\<open>toolToOptionSchema\<close> over the remaining entries.\<close>

fun toolToOptionSchema_loop ::
  "string list \<Rightarrow> nat \<Rightarrow> (string \<times> JsonSchemaProperty) list \<Rightarrow> OptionSchema \<Rightarrow> OptionSchema"
where
  "toolToOptionSchema_loop requiredSet order [] schema = schema"
| "toolToOptionSchema_loop requiredSet order ((key, prop) # rest) schema =
     toolToOptionSchema_loop requiredSet (Suc order) rest
       (case jsonSchemaPropertyToOptionDef key prop (key \<in> set requiredSet) order of
          None \<Rightarrow> schema
        | Some optionDef \<Rightarrow> schema(key \<mapsto> optionDef))"

definition toolToOptionSchema :: "Tool \<Rightarrow> OptionSchema" where
  "toolToOptionSchema tool =
     (case inputSchema tool of
        None \<Rightarrow> Map.empty
      | Some input \<Rightarrow>
          (case schema_properties input of
             None \<Rightarrow> Map.empty
           | Some properties \<Rightarrow>
               toolToOptionSchema_loop
                 (case schema_required input of None \<Rightarrow> [] | Some r \<Rightarrow> r)
                 0 properties Map.empty))"

text \<open>\<^verbatim>\<open>s.split(",")\<close>\<close>

fun split_comma :: "string \<Rightarrow> string list" where
  "split_comma [] = [[]]"
| "split_comma (c # cs) =
     (if c = CHR '','' then [] # split_comma cs
      else (case split_comma cs of
              [] \<Rightarrow> [[c]]
            | w # ws \<Rightarrow> (c # w) # ws))"

text \<open>\<^verbatim>\<open>s.trim()\<close>, for the white space of ASCII: tab to carriage return, and the space.\<close>

definition is_space :: "char \<Rightarrow> bool" where
  "is_space c = (c \<in> {CHR 0x09, CHR 0x0A, CHR 0x0B, CHR 0x0C, CHR 0x0D, CHR '' ''})"

definition trim :: "string \<Rightarrow> string" where
  "trim s = rev (dropWhile is_space (rev (dropWhile is_space s)))"

text \<open>The \<^verbatim>\<open>switch\<close> of \<^verbatim>\<open>parseOptionValues\<close> on the type of the option.\<close>

definition convert_value :: "js_runtime \<Rightarrow> option_type \<Rightarrow> jsvalue \<Rightarrow> jsvalue" where
  "convert_value rt type v =
     (case type of
        TNumber \<Rightarrow> (case v of JNum n \<Rightarrow> v | _ \<Rightarrow> JNum (parseFloat rt (String_of rt v)))
      | TBoolean \<Rightarrow> (case v of JBool b \<Rightarrow> v | _ \<Rightarrow> JBool (v = JStr ''true'' \<or> v = JStr ''1''))
      | TArray \<Rightarrow>
          (case v of
             JArr xs \<Rightarrow> v
           | _ \<Rightarrow> JArr (map (\<lambda>s. JStr (trim s)) (split_comma (String_of rt v))))
      | TString \<Rightarrow> v)"

text \<open>The \<^verbatim>\<open>for\<close> loop of \<^verbatim>\<open>parseOptionValues\<close> over the remaining entries.\<close>

fun parseOptionValues_loop ::
  "js_runtime \<Rightarrow> OptionSchema \<Rightarrow> (string \<times> jsvalue) list \<Rightarrow> (string \<rightharpoonup> jsvalue)
     \<Rightarrow> (string \<rightharpoonup> jsvalue)"
where
  "parseOptionValues_loop rt schema [] result = result"
| "parseOptionValues_loop rt schema ((key, v) # rest) result =
     (if v = JUndefined \<or> v = JNull then parseOptionValues_loop rt schema rest result
      else
        (case schema key of
           None \<Rightarrow> parseOptionValues_loop rt schema rest (result(key \<mapsto> v))
         | Some optionDef \<Rightarrow>
             parseOptionValues_loop rt schema rest
               (result(key \<mapsto> convert_value rt (opt_type optionDef) v))))"

definition parseOptionValues ::
  "js_runtime \<Rightarrow> (string \<times> jsvalue) list \<Rightarrow> OptionSchema \<Rightarrow> (string \<rightharpoonup> jsvalue)"
where
  "parseOptionValues rt values schema = parseOptionValues_loop rt schema values Map.empty"

section \<open>mcp/types.ts\<close>

datatype McpContent =
    TextContent string
  | ImageContent string string
  | AudioContent string string
  | ResourceContent string "string option" "string option" "string option"

text \<open>The \<^verbatim>\<open>type\<close> field of a content item.\<close>

fun content_type :: "McpContent \<Rightarrow> string" where
  "content_type (TextContent t) = ''text''"
| "content_type (ImageContent d m) = ''image''"
| "content_type (AudioContent d m) = ''audio''"
| "content_type (ResourceContent u t b m) = ''resource''"

record McpToolResult =
  isError :: "bool option"
  content :: "McpContent list"
  structuredContent :: "(string \<times> jsvalue) list option"

section \<open>The tool command\<close>

record CommandResult =
  result_success :: bool
  result_data :: jsvalue
  result_error :: "string option"
  result_message :: "string option"

text \<open>\<^verbatim>\<open>.join("\n")\<close>\<close>

fun join_lines :: "string list \<Rightarrow> string" where
  "join_lines [] = []"
| "join_lines [x] = x"
| "join_lines (x # y # ys) = x @ [CHR 0x0A] @ join_lines (y # ys)"

definition formatContent :: "McpContent list \<Rightarrow> string" where
  "formatContent items =
     join_lines
       (concat (map (\<lambda>c. case c of TextContent t \<Rightarrow> (if t \<noteq> [] then [t] else []) | _ \<Rightarrow> []) items))"

definition opt_str :: "string option \<Rightarrow> jsvalue" where
  "opt_str s = (case s of None \<Rightarrow> JUndefined | Some t \<Rightarrow> JStr t)"

text \<open>A content item as the object that the client built for it.\<close>

fun content_object :: "McpContent \<Rightarrow> jsvalue" where
  "content_object (TextContent t) = JObj [(''type'', JStr ''text''), (''text'', JStr t)]"
| "content_object (ImageContent d m) =
     JObj [(''type'', JStr ''image''), (''data'', JStr d), (''mimeType'', JStr m)]"
| "content_object (AudioContent d m) =
     JObj [(''type'', JStr ''audio''), (''data'', JStr d), (''mimeType'', JStr m)]"
| "content_object (ResourceContent uri t b m) =
     JObj [(''type'', JStr ''resource''),
           (''resource'',
            JObj [(''uri'', JStr uri), (''text'', opt_str t), (''blob'', opt_str b),
                  (''mimeType'', opt_str m)])]"

text \<open>The callback of \<^verbatim>\<open>content.map\<close> in \<^verbatim>\<open>formatContentAsData\<close>.\<close>

fun tagged_entry :: "js_runtime \<Rightarrow> McpContent \<Rightarrow> jsvalue" where
  "tagged_entry rt (TextContent t) =
     (case JSON_parse rt t of
        Some v \<Rightarrow> JObj [(''type'', JStr ''text''), (''content'', v)]
      | None \<Rightarrow> JObj [(''type'', JStr ''text''), (''content'', JStr t)])"
| "tagged_entry rt c = content_object c"

definition formatContentAsData :: "js_runtime \<Rightarrow> McpContent list \<Rightarrow> jsvalue" where
  "formatContentAsData rt items =
     (case items of
        [TextContent t] \<Rightarrow>
          if t \<noteq> [] then
            (case JSON_parse rt t of
               Some v \<Rightarrow> v
             | None \<Rightarrow> JObj [(''text'', JStr t)])
          else JArr (map (tagged_entry rt) items)
      | _ \<Rightarrow> JArr (map (tagged_entry rt) items))"

text \<open>
  \<open>callTool\<close> stands for \<^verbatim>\<open>new McpClientSession(serverName, serverConfig).callTool(tool.name, args)\<close>
  as a function of \<open>args\<close>: \<open>Inl\<close> is what it throws.
\<close>

definition execute ::
  "js_runtime \<Rightarrow> Tool \<Rightarrow> ((string \<rightharpoonup> jsvalue) \<Rightarrow> thrown + McpToolResult)
     \<Rightarrow> (string \<times> jsvalue) list \<Rightarrow> CommandResult"
where
  "execute rt tool callTool config =
     (let args = parseOptionValues rt config (toolToOptionSchema tool) in
      case callTool args of
        Inl e \<Rightarrow>
          \<lparr>result_success = False, result_data = JUndefined,
           result_error = Some (error_text e), result_message = None\<rparr>
      | Inr result \<Rightarrow>
          if isError result = Some True then
            \<lparr>result_success = False,
             result_data =
               (case structuredContent result of None \<Rightarrow> JUndefined | Some kvs \<Rightarrow> JObj kvs),
             result_error = Some (formatContent (content result)),
             result_message = None\<rparr>
          else
            \<lparr>result_success = True,
             result_data =
               (case structuredContent result of
                  Some kvs \<Rightarrow> JObj kvs
                | None \<Rightarrow> formatContentAsData rt (content result)),
             result_error = None,
             result_message = Some (''Tool '' @ tool_name tool @ '' executed successfully'')\<rparr>)"

section \<open>mcp/stdio-client.ts and mcp/http-client.ts\<close>

record BaseServerConfig =
  description :: "string option"
  enabled :: "bool option"

record StdioServerConfig = BaseServerConfig +
  command :: string
  args :: "string list option"
  env :: "(string \<times> string) list option"
  cwd :: "string option"

record HttpServerConfig = BaseServerConfig +
  url :: string
  headers :: "(string \<times> string) list option"

record RequestInit =
  init_headers :: "(string \<times> string) list option"

text \<open>
  The transports of the SDK, by the arguments of their constructors: command, args, env
  and cwd for the child process; the URL and the request init for the two HTTP ones.
\<close>

datatype transport =
    StdioClientTransport string "string list option" "(string \<times> string) list" "string option"
  | StreamableHTTPClientTransport string RequestInit
  | SSEClientTransport string RequestInit

text \<open>
  What lies outside the program: the environment of the process, the constructor
  \<^verbatim>\<open>new URL(s)\<close> (it throws on a string that is no URL), the SDK's
  \<^verbatim>\<open>client.connect(transport)\<close> and \<^verbatim>\<open>transport.close()\<close> (\<open>None\<close> when they resolve,
  \<open>Some e\<close> when they throw \<open>e\<close>).
\<close>

record world =
  process_env :: "(string \<times> string) list"
  new_URL :: "string \<Rightarrow> thrown + string"
  sdk_connect :: "transport \<Rightarrow> thrown option"
  transport_close :: "transport \<Rightarrow> thrown option"

record StdioMcpClient =
  stdio_config :: StdioServerConfig
  stdio_transport :: "transport option"
  stdio_connected :: bool

record HttpMcpClient =
  http_config :: HttpServerConfig
  http_transport :: "transport option"
  http_connected :: bool

text \<open>
  \<^verbatim>\<open>connect\<close> returns what it throws or nothing, the client afterwards, and the transports
  it handed to \<^verbatim>\<open>client.connect\<close>, in order.
\<close>

definition StdioMcpClient_connect ::
  "world \<Rightarrow> StdioMcpClient \<Rightarrow> (thrown + unit) \<times> StdioMcpClient \<times> transport list"
where
  "StdioMcpClient_connect w c =
     (if stdio_connected c then (Inr (), c, [])
      else
        let merged =
              AList.merge (process_env w)
                (case env (stdio_config c) of None \<Rightarrow> [] | Some overlay \<Rightarrow> overlay);
            t = StdioClientTransport (command (stdio_config c)) (args (stdio_config c)) merged
                  (cwd (stdio_config c));
            c1 = c\<lparr>stdio_transport := Some t\<rparr>
        in (case sdk_connect w t of
              Some e \<Rightarrow> (Inl e, c1, [t])
            | None \<Rightarrow> (Inr (), c1\<lparr>stdio_connected := True\<rparr>, [t])))"

text \<open>
  \<^verbatim>\<open>close\<close> returns what it throws or nothing, the client afterwards, and the transports
  whose \<^verbatim>\<open>close()\<close> it called. What \<^verbatim>\<open>transport.close()\<close> throws is caught and dropped.
\<close>

definition StdioMcpClient_close ::
  "world \<Rightarrow> StdioMcpClient \<Rightarrow> (thrown + unit) \<times> StdioMcpClient \<times> transport list"
where
  "StdioMcpClient_close w c =
     (case stdio_transport c of
        None \<Rightarrow> (Inr (), c, [])
      | Some t \<Rightarrow>
          if \<not> stdio_connected c then (Inr (), c, [])
          else
            (case transport_close w t of
               Some e \<Rightarrow> (Inr (), c\<lparr>stdio_connected := False, stdio_transport := None\<rparr>, [t])
             | None \<Rightarrow> (Inr (), c\<lparr>stdio_connected := False, stdio_transport := None\<rparr>, [t])))"

text \<open>\<^verbatim>\<open>streamableError instanceof Error && streamableError.message.includes("4")\<close>\<close>

fun isClientError :: "thrown \<Rightarrow> bool" where
  "isClientError (ErrorObj m) = str_includes m ''4''"
| "isClientError (NonError s) = False"

definition HttpMcpClient_connect ::
  "world \<Rightarrow> HttpMcpClient \<Rightarrow> (thrown + unit) \<times> HttpMcpClient \<times> transport list"
where
  "HttpMcpClient_connect w c =
     (if http_connected c then (Inr (), c, [])
      else
        (case new_URL w (url (http_config c)) of
           Inl e \<Rightarrow> (Inl e, c, [])
         | Inr u \<Rightarrow>
             let requestInit =
                   (case headers (http_config c) of
                      None \<Rightarrow> \<lparr>init_headers = None\<rparr>
                    | Some h \<Rightarrow> \<lparr>init_headers = Some h\<rparr>);
                 streamable = StreamableHTTPClientTransport u requestInit;
                 c1 = c\<lparr>http_transport := Some streamable\<rparr>
             in (case sdk_connect w streamable of
                   None \<Rightarrow> (Inr (), c1\<lparr>http_connected := True\<rparr>, [streamable])
                 | Some streamableError \<Rightarrow>
                     if isClientError streamableError then
                       let sse = SSEClientTransport u requestInit;
                           c2 = c1\<lparr>http_transport := Some sse\<rparr>
                       in (case sdk_connect w sse of
                             None \<Rightarrow> (Inr (), c2\<lparr>http_connected := True\<rparr>, [streamable, sse])
                           | Some sseError \<Rightarrow>
                               (Inl (ErrorObj
                                  (''Failed to connect with both Streamable HTTP and SSE: ''
                                     @ error_text streamableError)),
                                c2, [streamable, sse]))
                     else (Inl streamableError, c1, [streamable]))))"

definition HttpMcpClient_close ::
  "world \<Rightarrow> HttpMcpClient \<Rightarrow> (thrown + unit) \<times> HttpMcpClient \<times> transport list"
where
  "HttpMcpClient_close w c =
     (case http_transport c of
        None \<Rightarrow> (Inr (), c, [])
      | Some t \<Rightarrow>
          if \<not> http_connected c then (Inr (), c, [])
          else
            (case transport_close w t of
               Some e \<Rightarrow> (Inr (), c\<lparr>http_connected := False, http_transport := None\<rparr>, [t])
             | None \<Rightarrow> (Inr (), c\<lparr>http_connected := False, http_transport := None\<rparr>, [t])))"

section \<open>mcp/client.ts\<close>

text \<open>The two classes that \<^verbatim>\<open>createMcpClient\<close> instantiates for \<^verbatim>\<open>IMcpClient\<close>.\<close>

datatype IMcpClient = StdioClient StdioMcpClient | HttpClient HttpMcpClient

fun client_connect :: "world \<Rightarrow> IMcpClient \<Rightarrow> (thrown + unit) \<times> IMcpClient \<times> transport list" where
  "client_connect w (StdioClient c) =
     (case StdioMcpClient_connect w c of (r, c', ts) \<Rightarrow> (r, StdioClient c', ts))"
| "client_connect w (HttpClient c) =
     (case HttpMcpClient_connect w c of (r, c', ts) \<Rightarrow> (r, HttpClient c', ts))"

fun client_close :: "world \<Rightarrow> IMcpClient \<Rightarrow> (thrown + unit) \<times> IMcpClient \<times> transport list" where
  "client_close w (StdioClient c) =
     (case StdioMcpClient_close w c of (r, c', ts) \<Rightarrow> (r, StdioClient c', ts))"
| "client_close w (HttpClient c) =
     (case HttpMcpClient_close w c of (r, c', ts) \<Rightarrow> (r, HttpClient c', ts))"

text \<open>\<^verbatim>\<open>isConnected()\<close>, and the private field \<^verbatim>\<open>transport\<close>.\<close>

fun client_isConnected :: "IMcpClient \<Rightarrow> bool" where
  "client_isConnected (StdioClient c) = stdio_connected c"
| "client_isConnected (HttpClient c) = http_connected c"

fun client_transport :: "IMcpClient \<Rightarrow> transport option" where
  "client_transport (StdioClient c) = stdio_transport c"
| "client_transport (HttpClient c) = http_transport c"

text \<open>The calls that \<^verbatim>\<open>withConnection\<close> made, in order.\<close>

datatype lifecycle_event = CallConnect | RunOperation | CallClose

text \<open>
  \<^verbatim>\<open>try { await connect(); return await operation(client) } finally { await close() }\<close>.
  The operation holds the client and may call its methods, so it returns the client
  too. A \<^verbatim>\<open>finally\<close> block that throws replaces the outcome of the \<^verbatim>\<open>try\<close> block.
  The result is the outcome, the client afterwards, the calls made, and the transports
  that \<^verbatim>\<open>close\<close> closed.
\<close>

definition withConnection ::
  "world \<Rightarrow> (IMcpClient \<Rightarrow> (thrown + 'a) \<times> IMcpClient) \<Rightarrow> IMcpClient
     \<Rightarrow> (thrown + 'a) \<times> IMcpClient \<times> lifecycle_event list \<times> transport list"
where
  "withConnection w operation client =
     (case client_connect w client of
        (connecting, c1, attempts) \<Rightarrow>
          (case (case connecting of
                   Inl e \<Rightarrow> (Inl e, c1, [CallConnect])
                 | Inr u \<Rightarrow>
                     (case operation c1 of (r, c2) \<Rightarrow> (r, c2, [CallConnect, RunOperation])))
           of (body, c2, events) \<Rightarrow>
             (case client_close w c2 of
                (Inl e', c3, shut) \<Rightarrow> (Inl e', c3, events @ [CallClose], shut)
              | (Inr u, c3, shut) \<Rightarrow> (body, c3, events @ [CallClose], shut))))"

section \<open>Example inputs\<close>

text \<open>
  A runtime for the examples. It agrees with \<^verbatim>\<open>JSON.parse\<close> on the three JSON texts it
  names and reports every other text as unparsable; the examples parse no text that is
  JSON beyond these three. The other functions agree with the runtime on strings,
  booleans, \<open>null\<close>, \<open>undefined\<close> and the text \<^verbatim>\<open>42\<close>. The subtraction agrees with the
  runtime wherever the exact difference of two doubles is a double, as it is for the
  integers below 2000 that the examples subtract.
\<close>

definition example_runtime :: js_runtime where
  \<open>example_runtime =
     \<lparr>JSON_parse =
        (\<lambda>s. if s = ''{"cachedAt":0,"tools":[{"name":"opA"}]}''
               then Some (JObj [(''cachedAt'', JNum (Num 0)),
                                (''tools'', JArr [JObj [(''name'', JStr ''opA'')]])])
             else if s = ''{"cachedAt":1000,"tools":"oops"}''
               then Some (JObj [(''cachedAt'', JNum (Num 1000)), (''tools'', JStr ''oops'')])
             else if s = ''{"a":1}'' then Some (JObj [(''a'', JNum (Num 1))])
             else None),
      String_of =
        (\<lambda>v. case v of JStr s \<Rightarrow> s | JBool b \<Rightarrow> (if b then ''true'' else ''false'')
              | JNull \<Rightarrow> ''null'' | JUndefined \<Rightarrow> ''undefined'' | _ \<Rightarrow> ''[object Object]''),
      parseFloat = (\<lambda>s. if s = ''42'' then Num 42 else NaN),
      StringToNumber = (\<lambda>s. if s = ''42'' then Num 42 else NaN),
      double_minus = (\<lambda>a b. a - b)\<rparr>\<close>

definition example_entry :: string where
  \<open>example_entry = ''{"cachedAt":0,"tools":[{"name":"opA"}]}''\<close>

definition example_tools :: jsvalue where
  "example_tools = JArr [JObj [(''name'', JStr ''opA'')]]"

definition example_fs :: filesystem where
  "example_fs = [getCacheFilePath ''/cfg'' ''alpha'' \<mapsto> example_entry]"

text \<open>
  A tool with one parameter of each type; \<^verbatim>\<open>limit\<close> is listed as required and has the
  default 5.
\<close>

definition example_property :: "string \<Rightarrow> jsvalue \<Rightarrow> JsonSchemaProperty" where
  "example_property t d =
     \<lparr>prop_type = Some (TypeName t), prop_description = None, prop_default = d,
      prop_enum = None, prop_minimum = None, prop_maximum = None\<rparr>"

definition example_tool :: Tool where
  "example_tool =
     \<lparr>tool_name = ''search'', tool_title = None, tool_description = None,
      inputSchema = Some
        \<lparr>schema_properties = Some
           [(''query'', example_property ''string'' JUndefined),
            (''limit'', example_property ''number'' (JNum (Num 5))),
            (''verbose'', example_property ''boolean'' JUndefined),
            (''tags'', example_property ''array'' JUndefined)],
         schema_required = Some [''query'', ''limit'']\<rparr>\<rparr>"

definition example_values :: "(string \<times> jsvalue) list" where
  "example_values =
     [(''query'', JNull), (''limit'', JNull), (''verbose'', JUndefined), (''tags'', JUndefined),
      (''format'', JStr ''json'')]"

text \<open>
  A world in which the streamable HTTP attempt and the SSE attempt throw the two given
  values, a child process connects, and closing any transport throws.
\<close>

definition failing_http_world :: "thrown \<Rightarrow> thrown \<Rightarrow> world" where
  "failing_http_world streamableError sseError =
     \<lparr>process_env = [(''PATH'', ''/usr/bin'')],
      new_URL = (\<lambda>s. Inr s),
      sdk_connect =
        (\<lambda>t. case t of
                StreamableHTTPClientTransport u i \<Rightarrow> Some streamableError
              | SSEClientTransport u i \<Rightarrow> Some sseError
              | StdioClientTransport c a e d \<Rightarrow> None),
      transport_close = (\<lambda>t. Some (ErrorObj ''write EPIPE''))\<rparr>"

definition example_http_client :: HttpMcpClient where
  "example_http_client =
     \<lparr>http_config =
        \<lparr>description = None, enabled = None, url = ''https://mcp.example.com/mcp'',
         headers = Some [(''Authorization'', ''Bearer token'')]\<rparr>,
      http_transport = None, http_connected = False\<rparr>"

definition example_stdio_client :: StdioMcpClient where
  "example_stdio_client =
     \<lparr>stdio_config =
        \<lparr>description = None, enabled = None, command = ''bunx'',
         args = Some [''-y'', ''server-memory''], env = Some [(''DEBUG'', ''1'')], cwd = None\<rparr>,
      stdio_transport = None, stdio_connected = False\<rparr>"

section \<open>The catalog cache\<close>

lemma safeName_safe: "set a \<subseteq> set safe_chars \<Longrightarrow> safeName a = a"
  unfolding safeName_def by (rule map_idI) auto

lemma getCacheFilePath_eq_iff:
  "getCacheFilePath d a = getCacheFilePath d b \<longleftrightarrow> safeName a = safeName b"
  by (simp add: getCacheFilePath_def path_join_def)

lemma underscore_safe: "CHR ''_'' \<in> set safe_chars"
  by (simp add: safe_chars_def)

lemma safeName_eq_iff:
  "safeName a = safeName b \<longleftrightarrow>
     list_all2 (\<lambda>x y. x = y \<or> (x \<notin> set safe_chars \<or> x = CHR ''_'')
                              \<and> (y \<notin> set safe_chars \<or> y = CHR ''_'')) a b"
proof -
  let ?f = "\<lambda>c. if c \<in> set safe_chars then c else CHR ''_''"
  have "safeName a = safeName b \<longleftrightarrow> list_all2 (=) (map ?f a) (map ?f b)"
    unfolding safeName_def by (rule list_all2_eq)
  also have "\<dots> \<longleftrightarrow> list_all2 (\<lambda>x y. ?f x = ?f y) a b"
    by (simp only: list_all2_map1 list_all2_map2)
  also have "(\<lambda>x y. ?f x = ?f y) =
     (\<lambda>x y. x = y \<or> (x \<notin> set safe_chars \<or> x = CHR ''_'')
                   \<and> (y \<notin> set safe_chars \<or> y = CHR ''_''))"
    using underscore_safe by (intro ext) auto
  finally show ?thesis .
qed

lemmas cache_defs = getCachedTools_def getCachedTools_try_def existsSync_def readFileSync_def
  unlinkSync_def isCacheValid_def

lemma getCachedTools_fresh:
  assumes "fs (getCacheFilePath dir name) = Some raw"
      and "JSON_parse rt raw = Some (JObj entry)"
      and "map_of entry ''cachedAt'' = Some (JNum (Num cachedAt))"
      and "map_of entry ''tools'' = Some tools"
      and "cacheEnabled settings"
      and "double_minus rt now cachedAt < cacheTtlMs settings"
  shows "getCachedTools rt (Inr settings) dir now fs name = (Inr tools, fs)"
  using assms by (simp add: cache_defs)

lemma getCachedTools_expired:
  assumes "fs (getCacheFilePath dir name) = Some raw"
      and "JSON_parse rt raw = Some (JObj entry)"
      and "map_of entry ''cachedAt'' = Some (JNum (Num cachedAt))"
      and "cacheEnabled settings"
      and "cacheTtlMs settings \<le> double_minus rt now cachedAt"
  shows "getCachedTools rt (Inr settings) dir now fs name =
           (Inr JUndefined, fs(getCacheFilePath dir name := None))"
  using assms by (simp add: cache_defs)

lemma getCachedTools_missing:
  assumes "fs (getCacheFilePath dir name) = None" and "cacheEnabled settings"
  shows "getCachedTools rt (Inr settings) dir now fs name = (Inr JUndefined, fs)"
  using assms by (simp add: cache_defs)

lemma getCachedTools_disabled:
  assumes "\<not> cacheEnabled settings"
  shows "getCachedTools rt (Inr settings) dir now fs name = (Inr JUndefined, fs)"
  using assms by (simp add: cache_defs)

lemma getCachedTools_never_throws:
  "\<exists>v fs'. getCachedTools rt (Inr settings) dir now fs name = (Inr v, fs')"
  by (auto simp: cache_defs Let_def split: option.splits sum.splits prod.splits)

lemma getCachedTools_corrupt:
  assumes "fs (getCacheFilePath dir name) = Some raw"
      and "cacheEnabled settings"
      and "JSON_parse rt raw = None
           \<or> JSON_parse rt raw = Some JNull
           \<or> (\<exists>data c. JSON_parse rt raw = Some data \<and> get_prop data ''cachedAt'' = Inr c
                  \<and> ToNumber rt c = NaN)"
  shows "getCachedTools rt (Inr settings) dir now fs name =
           (Inr JUndefined, fs(getCacheFilePath dir name := None))"
  using assms by (auto simp: cache_defs)

lemma example_parse:
  "JSON_parse example_runtime example_entry =
     Some (JObj [(''cachedAt'', JNum (Num 0)), (''tools'', example_tools)])"
  by (simp add: example_runtime_def example_entry_def example_tools_def)

text \<open>
  Claim C9, as stated: distinct server identities have distinct cache paths. It fails: the
  names \<^verbatim>\<open>my.server\<close> and \<^verbatim>\<open>my_server\<close> share one cache file, since every character
  outside \<^verbatim>\<open>[a-zA-Z0-9_-]\<close> becomes an underscore.
\<close>

theorem cache_path_collision_counterexample:
  "getCacheFilePath ''/cfg'' ''my.server'' = getCacheFilePath ''/cfg'' ''my_server''
   \<and> ''my.server'' \<noteq> ''my_server''"
  by (simp add: getCacheFilePath_def path_join_def safeName_def safe_chars_def)

text \<open>
  Claim C9, amended: two server identities have the same cache path exactly when they
  have the same length and, at every position, their characters are equal or each of the
  two is an underscore or a character outside \<^verbatim>\<open>[a-zA-Z0-9_-]\<close>. So identities of
  different lengths, identities that differ at a position where one of the two characters
  is a letter, a digit or a hyphen, and distinct identities made only of letters, digits,
  underscores and hyphens have distinct cache paths.
\<close>

theorem cache_path_equal_iff:
  "(getCacheFilePath d a = getCacheFilePath d b \<longleftrightarrow>
      list_all2 (\<lambda>x y. x = y \<or> (x \<notin> set safe_chars \<or> x = CHR ''_'')
                               \<and> (y \<notin> set safe_chars \<or> y = CHR ''_'')) a b)
   \<and> (length a \<noteq> length b \<longrightarrow> getCacheFilePath d a \<noteq> getCacheFilePath d b)
   \<and> (\<forall>i. i < length a \<and> i < length b \<and> a ! i \<noteq> b ! i
            \<and> (a ! i \<in> set safe_chars \<and> a ! i \<noteq> CHR ''_''
                 \<or> b ! i \<in> set safe_chars \<and> b ! i \<noteq> CHR ''_'')
          \<longrightarrow> getCacheFilePath d a \<noteq> getCacheFilePath d b)
   \<and> (set a \<subseteq> set safe_chars \<and> set b \<subseteq> set safe_chars \<and> a \<noteq> b
          \<longrightarrow> getCacheFilePath d a \<noteq> getCacheFilePath d b)"
proof (intro conjI allI impI)
  show eq: "getCacheFilePath d a = getCacheFilePath d b \<longleftrightarrow>
      list_all2 (\<lambda>x y. x = y \<or> (x \<notin> set safe_chars \<or> x = CHR ''_'')
                               \<and> (y \<notin> set safe_chars \<or> y = CHR ''_'')) a b"
    by (simp only: getCacheFilePath_eq_iff safeName_eq_iff)
  show "getCacheFilePath d a \<noteq> getCacheFilePath d b" if "length a \<noteq> length b"
    using that eq by (auto dest: list_all2_lengthD)
  show "getCacheFilePath d a \<noteq> getCacheFilePath d b"
    if "i < length a \<and> i < length b \<and> a ! i \<noteq> b ! i
            \<and> (a ! i \<in> set safe_chars \<and> a ! i \<noteq> CHR ''_''
                 \<or> b ! i \<in> set safe_chars \<and> b ! i \<noteq> CHR ''_'')" for i
    using that eq by (auto dest: list_all2_nthD)
  show "getCacheFilePath d a \<noteq> getCacheFilePath d b"
    if "set a \<subseteq> set safe_chars \<and> set b \<subseteq> set safe_chars \<and> a \<noteq> b"
    using that by (simp add: getCacheFilePath_eq_iff safeName_safe)
qed

theorem cache_path_equal_iff_witness:
  "getCacheFilePath ''/cfg'' ''github.com'' \<noteq> getCacheFilePath ''/cfg'' ''gitlab.com''
   \<and> getCacheFilePath ''/cfg'' ''srv 1'' = getCacheFilePath ''/cfg'' ''srv/1''
   \<and> getCacheFilePath ''/cfg'' ''alpha'' \<noteq> getCacheFilePath ''/cfg'' ''beta-2''"
proof -
  note th = cache_path_equal_iff [where d = "''/cfg''"]
  have a: "getCacheFilePath ''/cfg'' ''github.com'' \<noteq> getCacheFilePath ''/cfg'' ''gitlab.com''"
    using th [where a = "''github.com''" and b = "''gitlab.com''", THEN conjunct1]
    by (simp add: safe_chars_def)
  have b: "getCacheFilePath ''/cfg'' ''srv 1'' = getCacheFilePath ''/cfg'' ''srv/1''"
    using th [where a = "''srv 1''" and b = "''srv/1''", THEN conjunct1]
    by (simp add: safe_chars_def)
  have c: "getCacheFilePath ''/cfg'' ''alpha'' \<noteq> getCacheFilePath ''/cfg'' ''beta-2''"
    using th [where a = "''alpha''" and b = "''beta-2''", THEN conjunct2, THEN conjunct1]
    by simp
  from a b c show ?thesis by (intro conjI)
qed

text \<open>
  Claim C3: with caching enabled and a persisted, well-formed entry (an object whose
  \<^verbatim>\<open>cachedAt\<close> is a number and whose \<^verbatim>\<open>tools\<close> is an array), \<^verbatim>\<open>getCachedTools\<close> returns
  the cached tools and leaves the file in place when \<open>now - cachedAt < ttl\<close>; when
  \<open>now - cachedAt \<ge> ttl\<close> it returns the absent value and deletes the file, so that the
  file no longer exists and a later call for the same name returns absent and changes
  nothing. The difference is the one the program computes, on doubles; it is the exact
  difference for integer timestamps of magnitude at most \<open>2^52\<close>.
\<close>

theorem getCachedTools_ttl:
  assumes "fs (getCacheFilePath dir name) = Some raw"
      and "JSON_parse rt raw = Some (JObj entry)"
      and "map_of entry ''cachedAt'' = Some (JNum (Num cachedAt))"
      and "map_of entry ''tools'' = Some (JArr tools)"
      and "cacheEnabled settings"
  shows "(double_minus rt now cachedAt < cacheTtlMs settings \<longrightarrow>
            getCachedTools rt (Inr settings) dir now fs name = (Inr (JArr tools), fs))
       \<and> (cacheTtlMs settings \<le> double_minus rt now cachedAt \<longrightarrow>
            getCachedTools rt (Inr settings) dir now fs name =
              (Inr JUndefined, fs(getCacheFilePath dir name := None))
            \<and> \<not> existsSync (fs(getCacheFilePath dir name := None)) (getCacheFilePath dir name)
            \<and> getCachedTools rt (Inr settings) dir later
                 (fs(getCacheFilePath dir name := None)) name =
                 (Inr JUndefined, fs(getCacheFilePath dir name := None)))"
  using assms
  by (simp add: getCachedTools_fresh getCachedTools_expired getCachedTools_missing existsSync_def)

theorem getCachedTools_ttl_witness:
  "getCachedTools example_runtime (Inr \<lparr>cacheEnabled = True, cacheTtlMs = 1000\<rparr>) ''/cfg'' 500
     example_fs ''alpha'' = (Inr example_tools, example_fs)
   \<and> getCachedTools example_runtime (Inr \<lparr>cacheEnabled = True, cacheTtlMs = 1000\<rparr>) ''/cfg'' 1500
       example_fs ''alpha'' =
       (Inr JUndefined, example_fs(getCacheFilePath ''/cfg'' ''alpha'' := None))
   \<and> \<not> existsSync (example_fs(getCacheFilePath ''/cfg'' ''alpha'' := None))
         (getCacheFilePath ''/cfg'' ''alpha'')
   \<and> getCachedTools example_runtime (Inr \<lparr>cacheEnabled = True, cacheTtlMs = 1000\<rparr>) ''/cfg'' 1501
       (example_fs(getCacheFilePath ''/cfg'' ''alpha'' := None)) ''alpha'' =
       (Inr JUndefined, example_fs(getCacheFilePath ''/cfg'' ''alpha'' := None))"
proof -
  let ?s = "\<lparr>cacheEnabled = True, cacheTtlMs = 1000\<rparr>"
  have f: "example_fs (getCacheFilePath ''/cfg'' ''alpha'') = Some example_entry"
    by (simp add: example_fs_def)
  have c: "map_of [(''cachedAt'', JNum (Num 0)), (''tools'', example_tools)] ''cachedAt''
             = Some (JNum (Num 0))"
    by simp
  have t: "map_of [(''cachedAt'', JNum (Num 0)), (''tools'', example_tools)] ''tools''
             = Some (JArr [JObj [(''name'', JStr ''opA'')]])"
    by (simp add: example_tools_def)
  have e: "cacheEnabled ?s" by simp
  have m: "double_minus example_runtime x y = x - y" for x y
    by (simp add: example_runtime_def)
  note th = getCachedTools_ttl [where fs = example_fs and dir = "''/cfg''" and name = "''alpha''"
      and raw = example_entry and rt = example_runtime
      and entry = "[(''cachedAt'', JNum (Num 0)), (''tools'', example_tools)]" and cachedAt = 0
      and tools = "[JObj [(''name'', JStr ''opA'')]]" and settings = ?s and later = 1501,
      OF f example_parse c t e]
  from th [where now = 500] th [where now = 1500] show ?thesis
    by (simp add: example_tools_def m)
qed

text \<open>
  Claim C4: \<^verbatim>\<open>getCachedTools\<close> treats a damaged entry as a miss and deletes it. With
  caching enabled it does so for an entry that is unparsable, or is the JSON \<open>null\<close>, or
  whose \<^verbatim>\<open>cachedAt\<close> is missing or converts to no number: the result is the absent value
  and the file is gone. It does not for an entry that parses to an object whose
  \<^verbatim>\<open>cachedAt\<close> is a number within the TTL: whatever the \<^verbatim>\<open>tools\<close> property holds, an
  array or not, is returned to the caller and the file stays.
\<close>

theorem getCachedTools_corrupt_entry:
  assumes "fs (getCacheFilePath dir name) = Some raw"
      and "cacheEnabled settings"
  shows "(JSON_parse rt raw = None
           \<or> JSON_parse rt raw = Some JNull
           \<or> (\<exists>data c. JSON_parse rt raw = Some data \<and> get_prop data ''cachedAt'' = Inr c
                  \<and> ToNumber rt c = NaN)
          \<longrightarrow> getCachedTools rt (Inr settings) dir now fs name =
                (Inr JUndefined, fs(getCacheFilePath dir name := None))
              \<and> fst (getCachedTools rt (Inr settings) dir now fs name) =
                fst (getCachedTools rt (Inr settings) dir now
                       (fs(getCacheFilePath dir name := None)) name))
       \<and> (JSON_parse rt raw = Some (JObj entry)
            \<and> map_of entry ''cachedAt'' = Some (JNum (Num cachedAt))
            \<and> double_minus rt now cachedAt < cacheTtlMs settings
            \<and> map_of entry ''tools'' = Some v
          \<longrightarrow> getCachedTools rt (Inr settings) dir now fs name = (Inr v, fs))"
proof (intro conjI impI)
  assume c: "JSON_parse rt raw = None
           \<or> JSON_parse rt raw = Some JNull
           \<or> (\<exists>data c. JSON_parse rt raw = Some data \<and> get_prop data ''cachedAt'' = Inr c
                  \<and> ToNumber rt c = NaN)"
  show "getCachedTools rt (Inr settings) dir now fs name =
                (Inr JUndefined, fs(getCacheFilePath dir name := None))"
    by (rule getCachedTools_corrupt [where fs = fs and dir = dir and name = name, OF assms c])
  then show "fst (getCachedTools rt (Inr settings) dir now fs name) =
                fst (getCachedTools rt (Inr settings) dir now
                       (fs(getCacheFilePath dir name := None)) name)"
    using assms(2) by (simp add: getCachedTools_missing)
next
  assume "JSON_parse rt raw = Some (JObj entry)
            \<and> map_of entry ''cachedAt'' = Some (JNum (Num cachedAt))
            \<and> double_minus rt now cachedAt < cacheTtlMs settings
            \<and> map_of entry ''tools'' = Some v"
  with assms show "getCachedTools rt (Inr settings) dir now fs name = (Inr v, fs)"
    by (simp add: getCachedTools_fresh)
qed

text \<open>
  The entry \<^verbatim>\<open>{"cachedAt":1000,"tools":"oops"}\<close> read at 1500 with a TTL of 1000: the
  caller receives the string and the file stays. An unparsable entry is deleted.
\<close>

theorem getCachedTools_corrupt_entry_witness:
  \<open>getCachedTools example_runtime (Inr \<lparr>cacheEnabled = True, cacheTtlMs = 1000\<rparr>) ''/cfg'' 1500
     [getCacheFilePath ''/cfg'' ''alpha'' \<mapsto> ''{"cachedAt":1000,"tools":"oops"}''] ''alpha''
   = (Inr (JStr ''oops''),
      [getCacheFilePath ''/cfg'' ''alpha'' \<mapsto> ''{"cachedAt":1000,"tools":"oops"}''])
   \<and> getCachedTools example_runtime (Inr \<lparr>cacheEnabled = True, cacheTtlMs = 1000\<rparr>) ''/cfg'' 500
     [getCacheFilePath ''/cfg'' ''alpha'' \<mapsto> ''{ cachedAt: 0, tools''] ''alpha''
   = (Inr JUndefined, Map.empty)\<close>
proof -
  let ?s = "\<lparr>cacheEnabled = True, cacheTtlMs = 1000\<rparr>"
  let ?bad = \<open>''{"cachedAt":1000,"tools":"oops"}''\<close>
  let ?fs1 = "[getCacheFilePath ''/cfg'' ''alpha'' \<mapsto> ?bad]"
  let ?fs2 = "[getCacheFilePath ''/cfg'' ''alpha'' \<mapsto> ''{ cachedAt: 0, tools'']"
  have e: "cacheEnabled ?s" by simp
  have f1: "?fs1 (getCacheFilePath ''/cfg'' ''alpha'') = Some ?bad" by simp
  have h1: "JSON_parse example_runtime ?bad =
              Some (JObj [(''cachedAt'', JNum (Num 1000)), (''tools'', JStr ''oops'')])
            \<and> map_of [(''cachedAt'', JNum (Num 1000)), (''tools'', JStr ''oops'')] ''cachedAt''
                = Some (JNum (Num 1000))
            \<and> double_minus example_runtime 1500 1000 < cacheTtlMs ?s
            \<and> map_of [(''cachedAt'', JNum (Num 1000)), (''tools'', JStr ''oops'')] ''tools''
                = Some (JStr ''oops'')"
    by (simp add: example_runtime_def)
  have w1: "getCachedTools example_runtime (Inr ?s) ''/cfg'' 1500 ?fs1 ''alpha''
              = (Inr (JStr ''oops''), ?fs1)"
    by (rule getCachedTools_corrupt_entry [where fs = ?fs1 and raw = ?bad, OF f1 e,
          THEN conjunct2, THEN mp, OF h1])
  have f2: "?fs2 (getCacheFilePath ''/cfg'' ''alpha'') = Some ''{ cachedAt: 0, tools''" by simp
  have h2: "JSON_parse example_runtime ''{ cachedAt: 0, tools'' = None"
    by (simp add: example_runtime_def)
  have w2: "getCachedTools example_runtime (Inr ?s) ''/cfg'' 500 ?fs2 ''alpha''
              = (Inr JUndefined, Map.empty)"
    using getCachedTools_corrupt_entry [where fs = ?fs2 and raw = "''{ cachedAt: 0, tools''"
        and rt = example_runtime and dir = "''/cfg''" and name = "''alpha''" and now = 500,
        OF f2 e, THEN conjunct1] h2
    by simp
  from w1 w2 show ?thesis by (intro conjI)
qed

text \<open>
  Claim C10: with caching disabled, \<^verbatim>\<open>getCachedTools\<close> returns the absent value for every
  server name and every file system, and leaves the file system as it was; a persisted
  well-formed entry is therefore returned by a later call with caching enabled, as long
  as that call is within the TTL. The difference is the one the program computes, on
  doubles.
\<close>

theorem getCachedTools_disabled_keeps_entry:
  assumes "\<not> cacheEnabled off"
  shows "getCachedTools rt (Inr off) dir now fs name = (Inr JUndefined, fs)
       \<and> (fs (getCacheFilePath dir name) = Some raw
            \<and> JSON_parse rt raw = Some (JObj entry)
            \<and> map_of entry ''cachedAt'' = Some (JNum (Num cachedAt))
            \<and> map_of entry ''tools'' = Some (JArr tools)
            \<and> cacheEnabled on \<and> double_minus rt later cachedAt < cacheTtlMs on
          \<longrightarrow> getCachedTools rt (Inr on) dir later
                (snd (getCachedTools rt (Inr off) dir now fs name)) name = (Inr (JArr tools), fs))"
  using assms by (simp add: getCachedTools_disabled getCachedTools_fresh)

theorem getCachedTools_disabled_keeps_entry_witness:
  "getCachedTools example_runtime (Inr \<lparr>cacheEnabled = False, cacheTtlMs = 1000\<rparr>) ''/cfg'' 500
     example_fs ''alpha'' = (Inr JUndefined, example_fs)
   \<and> getCachedTools example_runtime (Inr \<lparr>cacheEnabled = True, cacheTtlMs = 1000\<rparr>) ''/cfg'' 600
       (snd (getCachedTools example_runtime (Inr \<lparr>cacheEnabled = False, cacheTtlMs = 1000\<rparr>)
               ''/cfg'' 500 example_fs ''alpha'')) ''alpha''
     = (Inr example_tools, example_fs)"
proof -
  have d: "\<not> cacheEnabled \<lparr>cacheEnabled = False, cacheTtlMs = 1000\<rparr>" by simp
  have f: "example_fs (getCacheFilePath ''/cfg'' ''alpha'') = Some example_entry"
    by (simp add: example_fs_def)
  have h: "example_fs (getCacheFilePath ''/cfg'' ''alpha'') = Some example_entry
      \<and> JSON_parse example_runtime example_entry =
            Some (JObj [(''cachedAt'', JNum (Num 0)), (''tools'', example_tools)])
      \<and> map_of [(''cachedAt'', JNum (Num 0)), (''tools'', example_tools)] ''cachedAt''
            = Some (JNum (Num 0))
      \<and> map_of [(''cachedAt'', JNum (Num 0)), (''tools'', example_tools)] ''tools''
            = Some (JArr [JObj [(''name'', JStr ''opA'')]])
      \<and> cacheEnabled \<lparr>cacheEnabled = True, cacheTtlMs = 1000\<rparr>
      \<and> double_minus example_runtime 600 0
            < cacheTtlMs \<lparr>cacheEnabled = True, cacheTtlMs = 1000\<rparr>"
    using f example_parse by (simp add: example_tools_def example_runtime_def)
  note th = getCachedTools_disabled_keeps_entry [OF d, where rt = example_runtime
      and dir = "''/cfg''" and now = 500 and fs = example_fs and name = "''alpha''"
      and raw = example_entry
      and entry = "[(''cachedAt'', JNum (Num 0)), (''tools'', example_tools)]" and cachedAt = 0
      and tools = "[JObj [(''name'', JStr ''opA'')]]"
      and on = "\<lparr>cacheEnabled = True, cacheTtlMs = 1000\<rparr>" and later = 600]
  from th [THEN conjunct1] th [THEN conjunct2, THEN mp, OF h]
  show ?thesis by (simp add: example_tools_def)
qed

section \<open>The schema mapper\<close>

lemma jsonSchemaPropertyToOptionDef_default:
  "prop_default prop \<noteq> JUndefined \<Longrightarrow>
     \<exists>d. jsonSchemaPropertyToOptionDef key prop isRequired n = Some d
        \<and> opt_required d = False \<and> opt_default d = prop_default prop"
  by (simp add: jsonSchemaPropertyToOptionDef_def Let_def split: option.splits)

lemma toolToOptionSchema_loop_other:
  "key \<notin> fst ` set props \<Longrightarrow> toolToOptionSchema_loop req n props schema key = schema key"
  by (induction req n props schema rule: toolToOptionSchema_loop.induct)
     (auto split: option.splits)

lemma toolToOptionSchema_loop_entry:
  "distinct (map fst props) \<Longrightarrow> (key, prop) \<in> set props \<Longrightarrow>
     \<exists>n'. toolToOptionSchema_loop req n props schema key =
            jsonSchemaPropertyToOptionDef key prop (key \<in> set req) n'"
proof (induction req n props schema rule: toolToOptionSchema_loop.induct)
  case (1 req n schema)
  then show ?case by simp
next
  case (2 req n k p rest schema)
  show ?case
  proof (cases "(key, prop) = (k, p)")
    case True
    with 2 have "key \<notin> fst ` set rest" by auto
    with True show ?thesis
      by (auto simp: toolToOptionSchema_loop_other jsonSchemaPropertyToOptionDef_def Let_def)
  next
    case False
    with 2 show ?thesis by auto
  qed
qed

text \<open>
  Claim C6: a schema property that supplies a default value becomes a parameter with
  \<open>required = false\<close> that carries the default, whether or not the schema's
  \<^verbatim>\<open>required\<close> array lists its key.
\<close>

theorem default_forces_optional:
  assumes "inputSchema tool = Some input"
      and "schema_properties input = Some properties"
      and "distinct (map fst properties)"
      and "(key, prop) \<in> set properties"
      and "prop_default prop \<noteq> JUndefined"
  shows "\<exists>optionDef. toolToOptionSchema tool key = Some optionDef
           \<and> opt_required optionDef = False
           \<and> opt_default optionDef = prop_default prop"
proof -
  from assms(3,4) obtain n' where
    "toolToOptionSchema_loop (case schema_required input of None \<Rightarrow> [] | Some r \<Rightarrow> r)
        0 properties Map.empty key =
     jsonSchemaPropertyToOptionDef key prop
       (key \<in> set (case schema_required input of None \<Rightarrow> [] | Some r \<Rightarrow> r)) n'"
    using toolToOptionSchema_loop_entry by blast
  with assms(1,2) jsonSchemaPropertyToOptionDef_default [OF assms(5)] show ?thesis
    by (simp add: toolToOptionSchema_def)
qed

theorem default_forces_optional_witness:
  "''limit'' \<in> set [''query'', ''limit'']
   \<and> map_option opt_required (toolToOptionSchema example_tool ''limit'') = Some False
   \<and> map_option opt_default (toolToOptionSchema example_tool ''limit'') = Some (JNum (Num 5))"
proof -
  let ?input = "\<lparr>schema_properties = Some
           [(''query'', example_property ''string'' JUndefined),
            (''limit'', example_property ''number'' (JNum (Num 5))),
            (''verbose'', example_property ''boolean'' JUndefined),
            (''tags'', example_property ''array'' JUndefined)],
         schema_required = Some [''query'', ''limit'']\<rparr>"
  have a: "inputSchema example_tool = Some ?input" by (simp add: example_tool_def)
  have b: "schema_properties ?input = Some
           [(''query'', example_property ''string'' JUndefined),
            (''limit'', example_property ''number'' (JNum (Num 5))),
            (''verbose'', example_property ''boolean'' JUndefined),
            (''tags'', example_property ''array'' JUndefined)]" by simp
  have c: "distinct (map fst [(''query'', example_property ''string'' JUndefined),
            (''limit'', example_property ''number'' (JNum (Num 5))),
            (''verbose'', example_property ''boolean'' JUndefined),
            (''tags'', example_property ''array'' JUndefined)])" by simp
  have d: "(''limit'', example_property ''number'' (JNum (Num 5))) \<in> set [(''query'', example_property ''string'' JUndefined),
            (''limit'', example_property ''number'' (JNum (Num 5))),
            (''verbose'', example_property ''boolean'' JUndefined),
            (''tags'', example_property ''array'' JUndefined)]" by simp
  have e: "prop_default (example_property ''number'' (JNum (Num 5))) \<noteq> JUndefined"
    by (simp add: example_property_def)
  from default_forces_optional [OF a b c d e] show ?thesis
    by (auto simp: example_property_def)
qed

lemma parseOptionValues_loop_skips:
  "(\<And>v. (key, v) \<in> set vals \<Longrightarrow> v = JNull \<or> v = JUndefined) \<Longrightarrow>
     parseOptionValues_loop rt schema vals acc key = acc key"
  by (induction rt schema vals acc rule: parseOptionValues_loop.induct)
     (auto split: option.splits)

lemma convert_value_defined:
  "v \<noteq> JNull \<Longrightarrow> v \<noteq> JUndefined \<Longrightarrow>
     convert_value rt ty v \<noteq> JNull \<and> convert_value rt ty v \<noteq> JUndefined"
  by (cases ty; cases v) (simp_all add: convert_value_def)

lemma parseOptionValues_loop_defined:
  "acc k \<noteq> Some JNull \<Longrightarrow> acc k \<noteq> Some JUndefined \<Longrightarrow>
     parseOptionValues_loop rt schema vals acc k \<noteq> Some JNull
     \<and> parseOptionValues_loop rt schema vals acc k \<noteq> Some JUndefined"
proof (induction vals arbitrary: acc)
  case Nil
  then show ?case by simp
next
  case (Cons kv rest)
  obtain key v where kv: "kv = (key, v)" by (cases kv)
  show ?case
  proof (cases "v = JUndefined \<or> v = JNull")
    case True
    with Cons kv show ?thesis by simp
  next
    case False
    define x where
      "x = (case schema key of None \<Rightarrow> v | Some d \<Rightarrow> convert_value rt (opt_type d) v)"
    have x: "x \<noteq> JNull" "x \<noteq> JUndefined"
      using False convert_value_defined [of v rt] by (auto simp: x_def split: option.splits)
    have step: "parseOptionValues_loop rt schema (kv # rest) acc =
                  parseOptionValues_loop rt schema rest (acc(key \<mapsto> x))"
      using False kv by (simp add: x_def split: option.splits)
    have "(acc(key \<mapsto> x)) k \<noteq> Some JNull" "(acc(key \<mapsto> x)) k \<noteq> Some JUndefined"
      using Cons.prems x by auto
    then have "parseOptionValues_loop rt schema rest (acc(key \<mapsto> x)) k \<noteq> Some JNull
       \<and> parseOptionValues_loop rt schema rest (acc(key \<mapsto> x)) k \<noteq> Some JUndefined"
      by (rule Cons.IH)
    then show ?thesis unfolding step .
  qed
qed

text \<open>
  Claim C7: \<^verbatim>\<open>parseOptionValues\<close> omits every key whose supplied value is \<open>null\<close> or
  \<open>undefined\<close>, whatever the schema says about the key, and no key of its output holds
  \<open>null\<close> or \<open>undefined\<close>.
\<close>

theorem parseOptionValues_omits_absent:
  assumes "distinct (map fst vals)"
      and "(key, v) \<in> set vals"
      and "v = JNull \<or> v = JUndefined"
  shows "parseOptionValues rt vals schema key = None
       \<and> (\<forall>k. parseOptionValues rt vals schema k \<noteq> Some JNull
              \<and> parseOptionValues rt vals schema k \<noteq> Some JUndefined)"
proof -
  have "\<And>v'. (key, v') \<in> set vals \<Longrightarrow> v' = JNull \<or> v' = JUndefined"
    using assms by (metis eq_key_imp_eq_value)
  then have "parseOptionValues rt vals schema key = None"
    by (simp add: parseOptionValues_def parseOptionValues_loop_skips)
  moreover have "\<forall>k. parseOptionValues rt vals schema k \<noteq> Some JNull
              \<and> parseOptionValues rt vals schema k \<noteq> Some JUndefined"
    by (simp add: parseOptionValues_def parseOptionValues_loop_defined)
  ultimately show ?thesis by blast
qed

theorem parseOptionValues_omits_absent_witness:
  "parseOptionValues example_runtime example_values (toolToOptionSchema example_tool) ''query'' = None
   \<and> parseOptionValues example_runtime example_values (toolToOptionSchema example_tool) ''limit'' = None
   \<and> parseOptionValues example_runtime example_values (toolToOptionSchema example_tool) ''verbose'' = None
   \<and> parseOptionValues example_runtime example_values (toolToOptionSchema example_tool) ''tags'' = None
   \<and> map_option opt_type (toolToOptionSchema example_tool ''query'') = Some TString
   \<and> map_option opt_type (toolToOptionSchema example_tool ''limit'') = Some TNumber
   \<and> map_option opt_type (toolToOptionSchema example_tool ''verbose'') = Some TBoolean
   \<and> map_option opt_type (toolToOptionSchema example_tool ''tags'') = Some TArray"
proof -
  have d: "distinct (map fst example_values)" by (simp add: example_values_def)
  have q: "(''query'', JNull) \<in> set example_values" by (simp add: example_values_def)
  have l: "(''limit'', JNull) \<in> set example_values" by (simp add: example_values_def)
  have v: "(''verbose'', JUndefined) \<in> set example_values" by (simp add: example_values_def)
  have t: "(''tags'', JUndefined) \<in> set example_values" by (simp add: example_values_def)
  have types:
    "map_option opt_type (toolToOptionSchema example_tool ''query'') = Some TString"
    "map_option opt_type (toolToOptionSchema example_tool ''limit'') = Some TNumber"
    "map_option opt_type (toolToOptionSchema example_tool ''verbose'') = Some TBoolean"
    "map_option opt_type (toolToOptionSchema example_tool ''tags'') = Some TArray"
    by (simp_all add: toolToOptionSchema_def example_tool_def example_property_def
          jsonSchemaPropertyToOptionDef_def Let_def)
  from parseOptionValues_omits_absent [OF d q, of example_runtime "toolToOptionSchema example_tool"]
       parseOptionValues_omits_absent [OF d l, of example_runtime "toolToOptionSchema example_tool"]
       parseOptionValues_omits_absent [OF d v, of example_runtime "toolToOptionSchema example_tool"]
       parseOptionValues_omits_absent [OF d t, of example_runtime "toolToOptionSchema example_tool"]
       types
  show ?thesis by simp
qed

lemma tagged_entry_shape:
  "\<exists>kvs. tagged_entry rt c = JObj kvs \<and> map_of kvs ''type'' = Some (JStr (content_type c))
     \<and> (\<forall>t. c = TextContent t \<longrightarrow>
           map_of kvs ''content'' = Some (case JSON_parse rt t of Some v \<Rightarrow> v | None \<Rightarrow> JStr t))"
  by (cases c) (auto split: option.splits)

lemma formatContentAsData_single_text:
  "t \<noteq> [] \<Longrightarrow> formatContentAsData rt [TextContent t] =
     (case JSON_parse rt t of Some v \<Rightarrow> v | None \<Rightarrow> JObj [(''text'', JStr t)])"
  by (simp add: formatContentAsData_def)

lemma formatContentAsData_otherwise:
  "(\<And>t. items = [TextContent t] \<Longrightarrow> t = []) \<Longrightarrow>
     formatContentAsData rt items = JArr (map (tagged_entry rt) items)"
  by (auto simp: formatContentAsData_def split: list.splits McpContent.splits)

lemma formatContentAsData_empty_text:
  "JSON_parse rt [] = None \<Longrightarrow>
     formatContentAsData rt [TextContent []] =
       JArr [JObj [(''type'', JStr ''text''), (''content'', JStr [])]]"
  by (simp add: formatContentAsData_def)

lemma formatContent_texts:
  "formatContent items = join_lines [t. TextContent t \<leftarrow> items, t \<noteq> []]"
  by (simp add: formatContent_def)

text \<open>
  Claim C8, as stated: every call result without a structured payload whose content is one
  text item holding a JSON object is normalized to the decoded JSON. It fails for a result
  whose error flag is set: \<^verbatim>\<open>execute\<close> returns its text as the error message and no data.
\<close>

theorem error_result_not_normalized_counterexample:
  \<open>result_data
     (execute example_runtime example_tool
        (\<lambda>args. Inr \<lparr>isError = Some True, content = [TextContent ''{"a":1}''],
                        structuredContent = None\<rparr>) [])
   = JUndefined
   \<and> JSON_parse example_runtime ''{"a":1}'' = Some (JObj [(''a'', JNum (Num 1))])\<close>
  by (simp add: execute_def example_runtime_def)

text \<open>
  Claim C8, amended: a structured payload is passed through unchanged. For a result whose
  error flag is not set and that has no structured payload: when the content is exactly
  one text item with a non-empty text, the data is the decoded JSON if the text parses
  and the wrapper \<^verbatim>\<open>{text: ...}\<close> around the unchanged text if it does not; otherwise
  (also for one text item with an empty text) the data is the list of the content items
  in order, each an object tagged with its type, a text item holding the decoded JSON of
  its text or, if that does not parse, the text itself. A result whose error flag is set
  is reported as a failure whose error message is the non-empty texts of its text items,
  in order, joined by line feeds; it has no data unless it carries a structured payload.
  A result whose error flag is not set is reported as a success with no error message.
\<close>

theorem execute_normalizes_result:
  assumes "callTool (parseOptionValues rt config (toolToOptionSchema tool)) = Inr result"
  shows "(structuredContent result = Some payload \<longrightarrow>
            result_data (execute rt tool callTool config) = JObj payload)
       \<and> (isError result \<noteq> Some True \<and> structuredContent result = None
            \<and> content result = [TextContent t] \<and> t \<noteq> [] \<longrightarrow>
            (JSON_parse rt t = Some v \<longrightarrow> result_data (execute rt tool callTool config) = v)
            \<and> (JSON_parse rt t = None \<longrightarrow>
                 result_data (execute rt tool callTool config) = JObj [(''text'', JStr t)]))
       \<and> (isError result \<noteq> Some True \<and> structuredContent result = None
            \<and> (\<forall>t'. content result = [TextContent t'] \<longrightarrow> t' = []) \<longrightarrow>
            result_data (execute rt tool callTool config) =
              JArr (map (tagged_entry rt) (content result))
            \<and> (\<forall>c \<in> set (content result). \<exists>kvs.
                  tagged_entry rt c = JObj kvs
                  \<and> map_of kvs ''type'' = Some (JStr (content_type c))
                  \<and> (\<forall>t'. c = TextContent t' \<longrightarrow>
                        map_of kvs ''content'' =
                          Some (case JSON_parse rt t' of Some v' \<Rightarrow> v' | None \<Rightarrow> JStr t'))))
       \<and> (isError result = Some True \<longrightarrow>
            result_success (execute rt tool callTool config) = False
            \<and> result_error (execute rt tool callTool config) =
                Some (join_lines [t'. TextContent t' \<leftarrow> content result, t' \<noteq> []])
            \<and> result_message (execute rt tool callTool config) = None
            \<and> (structuredContent result = None \<longrightarrow>
                 result_data (execute rt tool callTool config) = JUndefined))
       \<and> (isError result \<noteq> Some True \<longrightarrow>
            result_success (execute rt tool callTool config) = True
            \<and> result_error (execute rt tool callTool config) = None
            \<and> result_message (execute rt tool callTool config) =
                Some (''Tool '' @ tool_name tool @ '' executed successfully''))"
proof -
  have e: "isError result = Some True \<longrightarrow>
            result_success (execute rt tool callTool config) = False
            \<and> result_error (execute rt tool callTool config) =
                Some (join_lines [t'. TextContent t' \<leftarrow> content result, t' \<noteq> []])
            \<and> result_message (execute rt tool callTool config) = None
            \<and> (structuredContent result = None \<longrightarrow>
                 result_data (execute rt tool callTool config) = JUndefined)"
    using assms by (simp add: execute_def formatContent_def)
  have f: "isError result \<noteq> Some True \<longrightarrow>
            result_success (execute rt tool callTool config) = True
            \<and> result_error (execute rt tool callTool config) = None
            \<and> result_message (execute rt tool callTool config) =
                Some (''Tool '' @ tool_name tool @ '' executed successfully'')"
    using assms by (simp add: execute_def)
  have a: "structuredContent result = Some payload \<longrightarrow>
            result_data (execute rt tool callTool config) = JObj payload"
    using assms by (simp add: execute_def)
  have b: "isError result \<noteq> Some True \<and> structuredContent result = None
            \<and> content result = [TextContent t] \<and> t \<noteq> [] \<longrightarrow>
            (JSON_parse rt t = Some v \<longrightarrow> result_data (execute rt tool callTool config) = v)
            \<and> (JSON_parse rt t = None \<longrightarrow>
                 result_data (execute rt tool callTool config) = JObj [(''text'', JStr t)])"
    using assms by (simp add: execute_def formatContentAsData_single_text)
  have c: "isError result \<noteq> Some True \<and> structuredContent result = None
            \<and> (\<forall>t'. content result = [TextContent t'] \<longrightarrow> t' = []) \<longrightarrow>
            result_data (execute rt tool callTool config) =
              JArr (map (tagged_entry rt) (content result))"
    using assms by (simp add: execute_def formatContentAsData_otherwise)
  have d: "\<forall>c \<in> set (content result). \<exists>kvs.
                  tagged_entry rt c = JObj kvs
                  \<and> map_of kvs ''type'' = Some (JStr (content_type c))
                  \<and> (\<forall>t'. c = TextContent t' \<longrightarrow>
                        map_of kvs ''content'' =
                          Some (case JSON_parse rt t' of Some v' \<Rightarrow> v' | None \<Rightarrow> JStr t'))"
    by (intro ballI tagged_entry_shape)
  from c d have cd: "isError result \<noteq> Some True \<and> structuredContent result = None
            \<and> (\<forall>t'. content result = [TextContent t'] \<longrightarrow> t' = []) \<longrightarrow>
            result_data (execute rt tool callTool config) =
              JArr (map (tagged_entry rt) (content result))
            \<and> (\<forall>c \<in> set (content result). \<exists>kvs.
                  tagged_entry rt c = JObj kvs
                  \<and> map_of kvs ''type'' = Some (JStr (content_type c))
                  \<and> (\<forall>t'. c = TextContent t' \<longrightarrow>
                        map_of kvs ''content'' =
                          Some (case JSON_parse rt t' of Some v' \<Rightarrow> v' | None \<Rightarrow> JStr t')))"
    by (intro impI conjI) (erule mp [OF c], rule d)
  from a b cd e f show ?thesis by (intro conjI)
qed

theorem execute_normalizes_result_witness:
  \<open>result_data (execute example_runtime example_tool
      (\<lambda>args. Inr \<lparr>isError = None, content = [TextContent ''ok''],
                      structuredContent = Some [(''n'', JNum (Num 1))]\<rparr>) [])
     = JObj [(''n'', JNum (Num 1))]
   \<and> result_data (execute example_runtime example_tool
      (\<lambda>args. Inr \<lparr>isError = Some False, content = [TextContent ''{"a":1}''],
                      structuredContent = None\<rparr>) [])
     = JObj [(''a'', JNum (Num 1))]
   \<and> result_data (execute example_runtime example_tool
      (\<lambda>args. Inr \<lparr>isError = Some False, content = [TextContent ''plain text''],
                      structuredContent = None\<rparr>) [])
     = JObj [(''text'', JStr ''plain text'')]
   \<and> result_data (execute example_runtime example_tool
      (\<lambda>args. Inr \<lparr>isError = Some False,
                      content = [TextContent ''plain text'', ImageContent ''AAAA'' ''image/png''],
                      structuredContent = None\<rparr>) [])
     = JArr [JObj [(''type'', JStr ''text''), (''content'', JStr ''plain text'')],
             JObj [(''type'', JStr ''image''), (''data'', JStr ''AAAA''),
                   (''mimeType'', JStr ''image/png'')]]
   \<and> result_error (execute example_runtime example_tool
      (\<lambda>args. Inr \<lparr>isError = Some True,
                      content = [TextContent ''disk full'', TextContent '''',
                                 ImageContent ''AAAA'' ''image/png'', TextContent ''retry later''],
                      structuredContent = None\<rparr>) [])
     = Some (''disk full'' @ [CHR 0x0A] @ ''retry later'')
   \<and> result_success (execute example_runtime example_tool
      (\<lambda>args. Inr \<lparr>isError = Some True,
                      content = [TextContent ''disk full'', TextContent '''',
                                 ImageContent ''AAAA'' ''image/png'', TextContent ''retry later''],
                      structuredContent = None\<rparr>) [])
     = False\<close>
proof -
  note th = execute_normalizes_result [where rt = example_runtime and tool = example_tool
      and config = "[]"]
  have w1: \<open>result_data (execute example_runtime example_tool
      (\<lambda>args. Inr \<lparr>isError = None, content = [TextContent ''ok''],
                      structuredContent = Some [(''n'', JNum (Num 1))]\<rparr>) [])
     = JObj [(''n'', JNum (Num 1))]\<close>
    using th [where callTool = "\<lambda>args. Inr \<lparr>isError = None, content = [TextContent ''ok''],
                      structuredContent = Some [(''n'', JNum (Num 1))]\<rparr>"
        and result = "\<lparr>isError = None, content = [TextContent ''ok''],
                      structuredContent = Some [(''n'', JNum (Num 1))]\<rparr>"
        and payload = "[(''n'', JNum (Num 1))]"]
    by simp
  have w2: \<open>result_data (execute example_runtime example_tool
      (\<lambda>args. Inr \<lparr>isError = Some False, content = [TextContent ''{"a":1}''],
                      structuredContent = None\<rparr>) [])
     = JObj [(''a'', JNum (Num 1))]\<close>
    using th [where callTool = \<open>\<lambda>args. Inr \<lparr>isError = Some False,
                      content = [TextContent ''{"a":1}''], structuredContent = None\<rparr>\<close>
        and result = \<open>\<lparr>isError = Some False, content = [TextContent ''{"a":1}''],
                      structuredContent = None\<rparr>\<close>
        and t = \<open>''{"a":1}''\<close> and v = "JObj [(''a'', JNum (Num 1))]"]
    by (simp add: example_runtime_def)
  have w3: \<open>result_data (execute example_runtime example_tool
      (\<lambda>args. Inr \<lparr>isError = Some False, content = [TextContent ''plain text''],
                      structuredContent = None\<rparr>) [])
     = JObj [(''text'', JStr ''plain text'')]\<close>
    using th [where callTool = \<open>\<lambda>args. Inr \<lparr>isError = Some False,
                      content = [TextContent ''plain text''], structuredContent = None\<rparr>\<close>
        and result = \<open>\<lparr>isError = Some False, content = [TextContent ''plain text''],
                      structuredContent = None\<rparr>\<close>
        and t = \<open>''plain text''\<close>]
    by (simp add: example_runtime_def)
  have w4: \<open>result_data (execute example_runtime example_tool
      (\<lambda>args. Inr \<lparr>isError = Some False,
                      content = [TextContent ''plain text'', ImageContent ''AAAA'' ''image/png''],
                      structuredContent = None\<rparr>) [])
     = JArr [JObj [(''type'', JStr ''text''), (''content'', JStr ''plain text'')],
             JObj [(''type'', JStr ''image''), (''data'', JStr ''AAAA''),
                   (''mimeType'', JStr ''image/png'')]]\<close>
    using th [where callTool = \<open>\<lambda>args. Inr \<lparr>isError = Some False,
                      content = [TextContent ''plain text'', ImageContent ''AAAA'' ''image/png''],
                      structuredContent = None\<rparr>\<close>
        and result = \<open>\<lparr>isError = Some False,
                      content = [TextContent ''plain text'', ImageContent ''AAAA'' ''image/png''],
                      structuredContent = None\<rparr>\<close>]
    by (simp add: example_runtime_def)
  have w5: \<open>result_error (execute example_runtime example_tool
      (\<lambda>args. Inr \<lparr>isError = Some True,
                      content = [TextContent ''disk full'', TextContent '''',
                                 ImageContent ''AAAA'' ''image/png'', TextContent ''retry later''],
                      structuredContent = None\<rparr>) [])
     = Some (''disk full'' @ [CHR 0x0A] @ ''retry later'')
   \<and> result_success (execute example_runtime example_tool
      (\<lambda>args. Inr \<lparr>isError = Some True,
                      content = [TextContent ''disk full'', TextContent '''',
                                 ImageContent ''AAAA'' ''image/png'', TextContent ''retry later''],
                      structuredContent = None\<rparr>) [])
     = False\<close>
    using th [where callTool = \<open>\<lambda>args. Inr \<lparr>isError = Some True,
                      content = [TextContent ''disk full'', TextContent '''',
                                 ImageContent ''AAAA'' ''image/png'', TextContent ''retry later''],
                      structuredContent = None\<rparr>\<close>
        and result = \<open>\<lparr>isError = Some True,
                      content = [TextContent ''disk full'', TextContent '''',
                                 ImageContent ''AAAA'' ''image/png'', TextContent ''retry later''],
                      structuredContent = None\<rparr>\<close>]
    by simp
  from w1 w2 w3 w4 w5 [THEN conjunct1] w5 [THEN conjunct2] show ?thesis by (intro conjI)
qed

section \<open>The HTTP transport\<close>

lemma str_includes_self: "str_includes s s"
  by (cases s) simp_all

lemma str_includes_append: "str_includes (a @ b) b"
  by (induction a) (simp_all add: str_includes_self)

lemma requestInit_headers:
  "(case h of None \<Rightarrow> \<lparr>init_headers = None\<rparr> | Some x \<Rightarrow> \<lparr>init_headers = Some x\<rparr>)
     = \<lparr>init_headers = h\<rparr>"
  by (cases h) simp_all

lemma HttpMcpClient_connect_failed_first:
  assumes "\<not> http_connected c"
      and "new_URL w (url (http_config c)) = Inr u"
      and "sdk_connect w (StreamableHTTPClientTransport u \<lparr>init_headers = headers (http_config c)\<rparr>)
             = Some e"
  shows "HttpMcpClient_connect w c =
     (if isClientError e then
        (case sdk_connect w (SSEClientTransport u \<lparr>init_headers = headers (http_config c)\<rparr>) of
           None \<Rightarrow>
             (Inr (),
              c\<lparr>http_transport :=
                   Some (SSEClientTransport u \<lparr>init_headers = headers (http_config c)\<rparr>),
                http_connected := True\<rparr>,
              [StreamableHTTPClientTransport u \<lparr>init_headers = headers (http_config c)\<rparr>,
               SSEClientTransport u \<lparr>init_headers = headers (http_config c)\<rparr>])
         | Some e2 \<Rightarrow>
             (Inl (ErrorObj (''Failed to connect with both Streamable HTTP and SSE: ''
                               @ error_text e)),
              c\<lparr>http_transport :=
                   Some (SSEClientTransport u \<lparr>init_headers = headers (http_config c)\<rparr>)\<rparr>,
              [StreamableHTTPClientTransport u \<lparr>init_headers = headers (http_config c)\<rparr>,
               SSEClientTransport u \<lparr>init_headers = headers (http_config c)\<rparr>]))
      else
        (Inl e,
         c\<lparr>http_transport :=
              Some (StreamableHTTPClientTransport u \<lparr>init_headers = headers (http_config c)\<rparr>)\<rparr>,
         [StreamableHTTPClientTransport u \<lparr>init_headers = headers (http_config c)\<rparr>]))"
  using assms
  by (simp add: HttpMcpClient_connect_def requestInit_headers Let_def split: option.splits)

text \<open>
  Claim C2: when the streamable HTTP attempt fails, \<^verbatim>\<open>connect\<close> makes exactly one further
  attempt, over SSE with the same URL and request init, if it takes the failure for a
  client error, and otherwise makes no further attempt and throws the failure unchanged.
  It takes for a client error every \<open>Error\<close> whose message contains the character
  \<^verbatim>\<open>4\<close>, which is wider than the 4xx statuses its comment names.
\<close>

theorem http_connect_fallback_rule:
  assumes "\<not> http_connected c"
      and "new_URL w (url (http_config c)) = Inr u"
      and "sdk_connect w (StreamableHTTPClientTransport u \<lparr>init_headers = headers (http_config c)\<rparr>)
             = Some e"
  shows "(isClientError e \<longrightarrow>
            snd (snd (HttpMcpClient_connect w c)) =
              [StreamableHTTPClientTransport u \<lparr>init_headers = headers (http_config c)\<rparr>,
               SSEClientTransport u \<lparr>init_headers = headers (http_config c)\<rparr>])
       \<and> (\<not> isClientError e \<longrightarrow>
            snd (snd (HttpMcpClient_connect w c)) =
              [StreamableHTTPClientTransport u \<lparr>init_headers = headers (http_config c)\<rparr>]
            \<and> fst (HttpMcpClient_connect w c) = Inl e)
       \<and> (isClientError e \<longleftrightarrow> (\<exists>m. e = ErrorObj m \<and> str_includes m ''4''))"
proof -
  have "isClientError e \<longleftrightarrow> (\<exists>m. e = ErrorObj m \<and> str_includes m ''4'')"
    by (cases e) simp_all
  then show ?thesis
    by (simp add: HttpMcpClient_connect_failed_first [OF assms] split: option.splits)
qed

text \<open>
  The rule at a gateway timeout, status 504: the SSE fallback is attempted and the failure
  is not thrown unchanged.
\<close>

theorem http_connect_fallback_rule_witness:
  "snd (snd (HttpMcpClient_connect
      (failing_http_world (ErrorObj ''Error POSTing to endpoint (HTTP 504): Gateway Timeout'')
         (ErrorObj ''SSE error: Non-200 status code (504)''))
      example_http_client)) =
     [StreamableHTTPClientTransport ''https://mcp.example.com/mcp''
        \<lparr>init_headers = Some [(''Authorization'', ''Bearer token'')]\<rparr>,
      SSEClientTransport ''https://mcp.example.com/mcp''
        \<lparr>init_headers = Some [(''Authorization'', ''Bearer token'')]\<rparr>]
   \<and> fst (HttpMcpClient_connect
      (failing_http_world (ErrorObj ''Error POSTing to endpoint (HTTP 504): Gateway Timeout'')
         (ErrorObj ''SSE error: Non-200 status code (504)''))
      example_http_client) =
     Inl (ErrorObj (''Failed to connect with both Streamable HTTP and SSE: ''
                      @ ''Error POSTing to endpoint (HTTP 504): Gateway Timeout''))"
proof -
  let ?w = "failing_http_world (ErrorObj ''Error POSTing to endpoint (HTTP 504): Gateway Timeout'')
         (ErrorObj ''SSE error: Non-200 status code (504)'')"
  have a: "\<not> http_connected example_http_client" by (simp add: example_http_client_def)
  have b: "new_URL ?w (url (http_config example_http_client)) = Inr ''https://mcp.example.com/mcp''"
    by (simp add: failing_http_world_def example_http_client_def)
  have c: "sdk_connect ?w (StreamableHTTPClientTransport ''https://mcp.example.com/mcp''
              \<lparr>init_headers = headers (http_config example_http_client)\<rparr>)
           = Some (ErrorObj ''Error POSTing to endpoint (HTTP 504): Gateway Timeout'')"
    by (simp add: failing_http_world_def)
  have d: "isClientError (ErrorObj ''Error POSTing to endpoint (HTTP 504): Gateway Timeout'')"
    by simp
  have e: "fst (HttpMcpClient_connect ?w example_http_client) =
     Inl (ErrorObj (''Failed to connect with both Streamable HTTP and SSE: ''
                      @ ''Error POSTing to endpoint (HTTP 504): Gateway Timeout''))"
    by (subst HttpMcpClient_connect_failed_first [OF a b c]) (simp add: failing_http_world_def)
  from http_connect_fallback_rule [OF a b c] d e show ?thesis
    by (simp add: example_http_client_def)
qed

text \<open>
  Claim C5, as stated: when both attempts fail, the error thrown carries the failure
  information of both. It fails: the message of the SSE error is not part of it.
\<close>

theorem combined_error_omits_sse_counterexample:
  "fst (HttpMcpClient_connect
      (failing_http_world (ErrorObj ''Error POSTing to endpoint (HTTP 404): Not Found'')
         (ErrorObj ''SSE error: Non-200 status code (405)''))
      example_http_client) =
     Inl (ErrorObj ''Failed to connect with both Streamable HTTP and SSE: Error POSTing to endpoint (HTTP 404): Not Found'')
   \<and> \<not> str_includes
         ''Failed to connect with both Streamable HTTP and SSE: Error POSTing to endpoint (HTTP 404): Not Found''
         ''SSE error: Non-200 status code (405)''"
  by (simp add: HttpMcpClient_connect_def failing_http_world_def example_http_client_def Let_def)

text \<open>
  Claim C5, amended: when both attempts fail, the error thrown is a new \<open>Error\<close> whose
  message names both transports and ends with the message of the streamable HTTP error;
  it does not depend on the SSE error.
\<close>

theorem http_connect_combined_error:
  assumes "\<not> http_connected c"
      and "new_URL w (url (http_config c)) = Inr u"
      and "sdk_connect w (StreamableHTTPClientTransport u \<lparr>init_headers = headers (http_config c)\<rparr>)
             = Some streamableError"
      and "isClientError streamableError"
      and "sdk_connect w (SSEClientTransport u \<lparr>init_headers = headers (http_config c)\<rparr>)
             = Some sseError"
  shows "fst (HttpMcpClient_connect w c) =
           Inl (ErrorObj (''Failed to connect with both Streamable HTTP and SSE: ''
                            @ error_text streamableError))
       \<and> str_includes
           (''Failed to connect with both Streamable HTTP and SSE: '' @ error_text streamableError)
           (error_text streamableError)"
proof (intro conjI)
  show "fst (HttpMcpClient_connect w c) =
           Inl (ErrorObj (''Failed to connect with both Streamable HTTP and SSE: ''
                            @ error_text streamableError))"
    using assms(4,5) by (simp add: HttpMcpClient_connect_failed_first [OF assms(1,2,3)])
  show "str_includes
           (''Failed to connect with both Streamable HTTP and SSE: '' @ error_text streamableError)
           (error_text streamableError)"
    by (rule str_includes_append)
qed

theorem http_connect_combined_error_witness:
  "fst (HttpMcpClient_connect
      (failing_http_world (ErrorObj ''Error POSTing to endpoint (HTTP 404): Not Found'')
         (ErrorObj ''SSE error: Non-200 status code (405)''))
      example_http_client) =
     Inl (ErrorObj (''Failed to connect with both Streamable HTTP and SSE: ''
                      @ ''Error POSTing to endpoint (HTTP 404): Not Found''))
   \<and> fst (HttpMcpClient_connect
      (failing_http_world (ErrorObj ''Error POSTing to endpoint (HTTP 404): Not Found'')
         (ErrorObj ''connect ECONNREFUSED''))
      example_http_client) =
     Inl (ErrorObj (''Failed to connect with both Streamable HTTP and SSE: ''
                      @ ''Error POSTing to endpoint (HTTP 404): Not Found''))"
proof -
  have one: "fst (HttpMcpClient_connect
      (failing_http_world (ErrorObj ''Error POSTing to endpoint (HTTP 404): Not Found'') e2)
      example_http_client) =
     Inl (ErrorObj (''Failed to connect with both Streamable HTTP and SSE: ''
                      @ ''Error POSTing to endpoint (HTTP 404): Not Found''))" for e2
  proof -
    let ?w = "failing_http_world (ErrorObj ''Error POSTing to endpoint (HTTP 404): Not Found'') e2"
    have a: "\<not> http_connected example_http_client" by (simp add: example_http_client_def)
    have b: "new_URL ?w (url (http_config example_http_client)) = Inr ''https://mcp.example.com/mcp''"
      by (simp add: failing_http_world_def example_http_client_def)
    have c: "sdk_connect ?w (StreamableHTTPClientTransport ''https://mcp.example.com/mcp''
                \<lparr>init_headers = headers (http_config example_http_client)\<rparr>)
             = Some (ErrorObj ''Error POSTing to endpoint (HTTP 404): Not Found'')"
      by (simp add: failing_http_world_def)
    have d: "isClientError (ErrorObj ''Error POSTing to endpoint (HTTP 404): Not Found'')"
      by simp
    have e: "sdk_connect ?w (SSEClientTransport ''https://mcp.example.com/mcp''
                \<lparr>init_headers = headers (http_config example_http_client)\<rparr>)
             = Some e2"
      by (simp add: failing_http_world_def)
    from http_connect_combined_error [OF a b c d e, THEN conjunct1] show ?thesis
      by simp
  qed
  from one [of "ErrorObj ''SSE error: Non-200 status code (405)''"]
       one [of "ErrorObj ''connect ECONNREFUSED''"]
  show ?thesis by (intro conjI)
qed

section \<open>The session\<close>

lemma StdioMcpClient_close_ok: "fst (StdioMcpClient_close w c) = Inr ()"
  by (simp add: StdioMcpClient_close_def split: option.splits)

lemma HttpMcpClient_close_ok: "fst (HttpMcpClient_close w c) = Inr ()"
  by (simp add: HttpMcpClient_close_def split: option.splits)

lemma client_close_ok: "fst (client_close w c) = Inr ()"
  by (cases c) (simp_all add: case_prod_beta StdioMcpClient_close_ok HttpMcpClient_close_ok)

lemma client_close_connected:
  assumes "client_isConnected c" and "client_transport c = Some t"
  shows "\<exists>c'. client_close w c = (Inr (), c', [t])
            \<and> \<not> client_isConnected c' \<and> client_transport c' = None"
  using assms
  by (cases c)
     (auto simp: StdioMcpClient_close_def HttpMcpClient_close_def split: option.splits)

lemma client_close_idle:
  assumes "\<not> client_isConnected c \<or> client_transport c = None"
  shows "client_close w c = (Inr (), c, [])"
  using assms
  by (cases c)
     (auto simp: StdioMcpClient_close_def HttpMcpClient_close_def split: option.splits)

lemma client_connect_failed:
  assumes "client_connect w c = (Inl e, c1, ts)"
  shows "\<not> client_isConnected c1"
  using assms
  by (cases c)
     (auto simp: StdioMcpClient_connect_def HttpMcpClient_connect_def Let_def
           split: if_splits sum.splits option.splits)

lemma client_connect_succeeded:
  assumes "client_connect w c = (Inr u, c1, ts)" and "\<not> client_isConnected c"
  shows "client_isConnected c1 \<and> ts \<noteq> [] \<and> client_transport c1 = Some (last ts)"
  using assms
  by (cases c)
     (auto simp: StdioMcpClient_connect_def HttpMcpClient_connect_def Let_def
           split: if_splits sum.splits option.splits)

lemma client_connect_ignores_close:
  "client_connect (w\<lparr>transport_close := f\<rparr>) c = client_connect w c"
  by (cases c)
     (simp_all add: StdioMcpClient_connect_def HttpMcpClient_connect_def Let_def
        split: sum.splits option.splits)

lemma withConnection_outcome:
  "withConnection w operation client =
     (case client_connect w client of
        (Inl e, c1, ts) \<Rightarrow>
          (Inl e, fst (snd (client_close w c1)), [CallConnect, CallClose],
           snd (snd (client_close w c1)))
      | (Inr u, c1, ts) \<Rightarrow>
          (fst (operation c1), fst (snd (client_close w (snd (operation c1)))),
           [CallConnect, RunOperation, CallClose],
           snd (snd (client_close w (snd (operation c1))))))"
proof -
  obtain r c1 ts where cc: "client_connect w client = (r, c1, ts)"
    by (cases "client_connect w client")
  show ?thesis
  proof (cases r)
    case (Inl e)
    obtain c3 shut where "client_close w c1 = (Inr (), c3, shut)"
      using client_close_ok [of w c1] by (cases "client_close w c1") auto
    with cc Inl show ?thesis by (simp add: withConnection_def)
  next
    case (Inr u)
    obtain res c2 where op: "operation c1 = (res, c2)"
      by (cases "operation c1")
    obtain c3 shut where "client_close w c2 = (Inr (), c3, shut)"
      using client_close_ok [of w c2] by (cases "client_close w c2") auto
    with cc Inr op show ?thesis by (simp add: withConnection_def)
  qed
qed

text \<open>
  Claim C1: \<^verbatim>\<open>withConnection\<close> calls \<^verbatim>\<open>connect\<close> first and \<^verbatim>\<open>close\<close> last, in every
  case. When \<^verbatim>\<open>connect\<close> succeeds, the operation runs between the two and its result or
  its error is the outcome; \<^verbatim>\<open>close\<close> then closes the transport that the client holds
  and leaves the client disconnected and without a transport (if the operation has
  already disconnected the client, there is nothing to close and the client stays as it
  is). For a client that was not connected before and that the operation leaves as
  \<^verbatim>\<open>connect\<close> left it, the transport closed is the one that connected. When \<^verbatim>\<open>connect\<close>
  throws, the operation does not run, that error is the outcome, and the client is left
  disconnected. The outcome is the same whatever \<^verbatim>\<open>transport.close()\<close> does, since
  \<^verbatim>\<open>close\<close> swallows what it throws.
\<close>

theorem withConnection_lifecycle:
  assumes "withConnection w operation client = (outcome, client', events, shut)"
  shows "(\<forall>c1 ts. client_connect w client = (Inr (), c1, ts) \<longrightarrow>
            outcome = fst (operation c1)
            \<and> events = [CallConnect, RunOperation, CallClose]
            \<and> (\<forall>t. client_isConnected (snd (operation c1))
                    \<and> client_transport (snd (operation c1)) = Some t \<longrightarrow>
                  shut = [t] \<and> \<not> client_isConnected client' \<and> client_transport client' = None)
            \<and> (\<not> client_isConnected (snd (operation c1))
                  \<or> client_transport (snd (operation c1)) = None \<longrightarrow>
                  shut = [] \<and> client' = snd (operation c1))
            \<and> (\<not> client_isConnected client \<and> snd (operation c1) = c1 \<longrightarrow>
                  shut = [last ts] \<and> \<not> client_isConnected client'
                  \<and> client_transport client' = None))
       \<and> (\<forall>e c1 ts. client_connect w client = (Inl e, c1, ts) \<longrightarrow>
            outcome = Inl e \<and> events = [CallConnect, CallClose]
            \<and> shut = [] \<and> client' = c1 \<and> \<not> client_isConnected client')
       \<and> hd events = CallConnect \<and> last events = CallClose
       \<and> fst (withConnection (w\<lparr>transport_close := other_close\<rparr>) operation client) = outcome"
proof (intro conjI allI impI)
  fix c1 ts
  assume cc: "client_connect w client = (Inr (), c1, ts)"
  let ?c2 = "snd (operation c1)"
  from assms cc have res: "outcome = fst (operation c1)"
      "events = [CallConnect, RunOperation, CallClose]"
      "client' = fst (snd (client_close w ?c2))" "shut = snd (snd (client_close w ?c2))"
    by (simp_all add: withConnection_outcome)
  show "outcome = fst (operation c1)" by (rule res)
  show "events = [CallConnect, RunOperation, CallClose]" by (rule res)
  show "shut = [t]" "\<not> client_isConnected client'" "client_transport client' = None"
    if "client_isConnected ?c2 \<and> client_transport ?c2 = Some t" for t
    using client_close_connected [of ?c2 t w] that res(3,4) by auto
  show "shut = []" "client' = ?c2"
    if "\<not> client_isConnected ?c2 \<or> client_transport ?c2 = None"
    using client_close_idle [OF that, of w] res(3,4) by simp_all
  have last: "client_isConnected ?c2 \<and> client_transport ?c2 = Some (last ts)"
    if "\<not> client_isConnected client \<and> ?c2 = c1"
    using that client_connect_succeeded [OF cc] by simp
  show "shut = [last ts]" "\<not> client_isConnected client'" "client_transport client' = None"
    if "\<not> client_isConnected client \<and> ?c2 = c1"
    using client_close_connected [of ?c2 "last ts" w] last [OF that] res(3,4) by auto
next
  fix e c1 ts
  assume cc: "client_connect w client = (Inl e, c1, ts)"
  have idle: "client_close w c1 = (Inr (), c1, [])"
    using client_connect_failed [OF cc] by (simp add: client_close_idle)
  from assms cc idle show "outcome = Inl e" "events = [CallConnect, CallClose]"
      "shut = []" "client' = c1"
    by (simp_all add: withConnection_outcome)
  with client_connect_failed [OF cc] show "\<not> client_isConnected client'" by simp
next
  from assms show "hd events = CallConnect"
    by (cases "client_connect w client")
       (auto simp: withConnection_outcome split: sum.splits)
  from assms show "last events = CallClose"
    by (cases "client_connect w client")
       (auto simp: withConnection_outcome split: sum.splits)
  from assms
  show "fst (withConnection (w\<lparr>transport_close := other_close\<rparr>) operation client) = outcome"
    by (cases "client_connect w client")
       (auto simp: withConnection_outcome client_connect_ignores_close split: sum.splits)
qed

text \<open>
  A child process whose transport throws when it is closed: the operation's result and
  the operation's error are the outcome, the transport is closed, and the client ends
  disconnected.
\<close>

theorem withConnection_lifecycle_witness:
  "fst (withConnection (failing_http_world (ErrorObj ''unused'') (ErrorObj ''unused''))
          (\<lambda>c. (Inr ''search'', c)) (StdioClient example_stdio_client)) = Inr ''search''
   \<and> fst (snd (snd (withConnection (failing_http_world (ErrorObj ''unused'') (ErrorObj ''unused''))
          (\<lambda>c. (Inr ''search'', c)) (StdioClient example_stdio_client))))
       = [CallConnect, RunOperation, CallClose]
   \<and> snd (snd (snd (withConnection (failing_http_world (ErrorObj ''unused'') (ErrorObj ''unused''))
          (\<lambda>c. (Inr ''search'', c)) (StdioClient example_stdio_client))))
       = [StdioClientTransport ''bunx'' (Some [''-y'', ''server-memory''])
           [(''PATH'', ''/usr/bin''), (''DEBUG'', ''1'')] None]
   \<and> \<not> client_isConnected
         (fst (snd (withConnection (failing_http_world (ErrorObj ''unused'') (ErrorObj ''unused''))
            (\<lambda>c. (Inr ''search'', c)) (StdioClient example_stdio_client))))
   \<and> fst (withConnection (failing_http_world (ErrorObj ''unused'') (ErrorObj ''unused''))
          (\<lambda>c. (Inl (ErrorObj ''Request timed out'') :: thrown + string, c))
          (StdioClient example_stdio_client)) = Inl (ErrorObj ''Request timed out'')
   \<and> \<not> client_isConnected
         (fst (snd (withConnection (failing_http_world (ErrorObj ''unused'') (ErrorObj ''unused''))
            (\<lambda>c. (Inl (ErrorObj ''Request timed out'') :: thrown + string, c))
            (StdioClient example_stdio_client))))
   \<and> transport_close (failing_http_world (ErrorObj ''unused'') (ErrorObj ''unused''))
        (StdioClientTransport ''bunx'' (Some [''-y'', ''server-memory''])
           [(''PATH'', ''/usr/bin''), (''DEBUG'', ''1'')] None)
       = Some (ErrorObj ''write EPIPE'')"
proof -
  let ?W = "failing_http_world (ErrorObj ''unused'') (ErrorObj ''unused'')"
  let ?c = "StdioClient example_stdio_client"
  let ?t = "StdioClientTransport ''bunx'' (Some [''-y'', ''server-memory''])
           [(''PATH'', ''/usr/bin''), (''DEBUG'', ''1'')] None"
  have conn: "client_connect ?W ?c = (Inr (), fst (snd (client_connect ?W ?c)), [?t])"
    by (simp add: StdioMcpClient_connect_def failing_http_world_def example_stdio_client_def
          Let_def AList.merge_def AList.update_def)
  have idle: "\<not> client_isConnected ?c" by (simp add: example_stdio_client_def)
  have run: "fst (withConnection ?W operation ?c) = fst (operation (fst (snd (client_connect ?W ?c))))
             \<and> fst (snd (snd (withConnection ?W operation ?c)))
                 = [CallConnect, RunOperation, CallClose]
             \<and> snd (snd (snd (withConnection ?W operation ?c))) = [?t]
             \<and> \<not> client_isConnected (fst (snd (withConnection ?W operation ?c)))"
    if same: "\<And>c. snd (operation c) = c"
    for operation :: "IMcpClient \<Rightarrow> (thrown + string) \<times> IMcpClient"
  proof -
    have "withConnection ?W operation ?c =
            (fst (withConnection ?W operation ?c), fst (snd (withConnection ?W operation ?c)),
             fst (snd (snd (withConnection ?W operation ?c))),
             snd (snd (snd (withConnection ?W operation ?c))))"
      by simp
    from withConnection_lifecycle [OF this, THEN conjunct1, rule_format, OF conn] idle same
    show ?thesis by simp
  qed
  have close: "transport_close ?W ?t = Some (ErrorObj ''write EPIPE'')"
    by (simp add: failing_http_world_def)
  from run [of "\<lambda>c. (Inr ''search'', c)"]
       run [of "\<lambda>c. (Inl (ErrorObj ''Request timed out''), c)"] close
  show ?thesis by simp
qed

end
